theory Spec2Isabelle
  imports Main "HOL-Library.Word"
begin

unbundle bit_operations_syntax

section \<open>Bytes\<close>

type_synonym byte = "8 word"

text \<open>Go's \<^verbatim>\<open>[]byte("...")\<close> on an ASCII string literal.\<close>

definition ascii :: "string \<Rightarrow> byte list" where
  "ascii s = map (\<lambda>c. of_nat (of_char c)) s"

text \<open>
  Go's builtin \<^verbatim>\<open>copy(dst[:], src)\<close> into a freshly zeroed array of \<open>n\<close> bytes:
  the first \<open>min n (length src)\<close> bytes of \<open>src\<close>, the rest of the array stays zero.
\<close>

definition copy_into :: "nat \<Rightarrow> byte list \<Rightarrow> byte list" where
  "copy_into n src = take n src @ replicate (n - length src) 0"

section \<open>The hash functions the package imports\<close>

text \<open>
  \<^verbatim>\<open>crypto/sha256\<close>, \<^verbatim>\<open>crypto/sha1\<close> and \<^verbatim>\<open>crypto/hmac\<close> belong to the Go standard
  library. They are written out here after FIPS 180-4 and RFC 2104, on 32-bit words held
  as natural numbers below \<open>2 ^ 32\<close> with the wrap-around explicit.
\<close>

definition add32 :: "nat \<Rightarrow> nat \<Rightarrow> nat" where
  "add32 x y = (x + y) mod 4294967296"

definition shr :: "nat \<Rightarrow> nat \<Rightarrow> nat" where
  "shr n x = x div 2 ^ n"

definition rotr :: "nat \<Rightarrow> nat \<Rightarrow> nat" where
  "rotr n x = x div 2 ^ n + (x mod 2 ^ n) * 2 ^ (32 - n)"

definition rotl :: "nat \<Rightarrow> nat \<Rightarrow> nat" where
  "rotl n x = (x mod 2 ^ (32 - n)) * 2 ^ n + x div 2 ^ (32 - n)"

definition not32 :: "nat \<Rightarrow> nat" where
  "not32 x = 4294967295 - x mod 4294967296"

fun be32 :: "byte list \<Rightarrow> nat" where
  "be32 [b0, b1, b2, b3] = ((unat b0 * 256 + unat b1) * 256 + unat b2) * 256 + unat b3"
| "be32 _ = 0"

definition put_be32 :: "nat \<Rightarrow> byte list" where
  "put_be32 w = [of_nat (w div 16777216 mod 256), of_nat (w div 65536 mod 256),
                 of_nat (w div 256 mod 256), of_nat (w mod 256)]"

definition put_be64 :: "nat \<Rightarrow> byte list" where
  "put_be64 n = put_be32 (n div 4294967296) @ put_be32 n"

text \<open>Merkle-Damgaard padding to a multiple of 64 bytes, shared by SHA-1 and SHA-256.\<close>

definition md_pad :: "byte list \<Rightarrow> byte list" where
  "md_pad m = m @ [0x80] @ replicate ((64 - (length m + 9) mod 64) mod 64) 0
              @ put_be64 (8 * length m)"

fun chunks :: "nat \<Rightarrow> 'a list \<Rightarrow> 'a list list" where
  "chunks k [] = []"
| "chunks k (x # xs) =
     (if k = 0 then [] else take k (x # xs) # chunks k (drop k (x # xs)))"

subsection \<open>SHA-256\<close>

text \<open>
  The round constants (the first 32 bits of the fractional parts of the cube roots of the
  first 64 primes) and the initial hash value, in decimal.
\<close>

definition K256 :: "nat list" where
  "K256 =
    [1116352408, 1899447441, 3049323471, 3921009573,
     961987163, 1508970993, 2453635748, 2870763221,
     3624381080, 310598401, 607225278, 1426881987,
     1925078388, 2162078206, 2614888103, 3248222580,
     3835390401, 4022224774, 264347078, 604807628,
     770255983, 1249150122, 1555081692, 1996064986,
     2554220882, 2821834349, 2952996808, 3210313671,
     3336571891, 3584528711, 113926993, 338241895,
     666307205, 773529912, 1294757372, 1396182291,
     1695183700, 1986661051, 2177026350, 2456956037,
     2730485921, 2820302411, 3259730800, 3345764771,
     3516065817, 3600352804, 4094571909, 275423344,
     430227734, 506948616, 659060556, 883997877,
     958139571, 1322822218, 1537002063, 1747873779,
     1955562222, 2024104815, 2227730452, 2361852424,
     2428436474, 2756734187, 3204031479, 3329325298]"

definition ch :: "nat \<Rightarrow> nat \<Rightarrow> nat \<Rightarrow> nat" where
  "ch x y z = (x AND y) XOR (not32 x AND z)"

definition maj :: "nat \<Rightarrow> nat \<Rightarrow> nat \<Rightarrow> nat" where
  "maj x y z = (x AND y) XOR (x AND z) XOR (y AND z)"

definition bsig0 :: "nat \<Rightarrow> nat" where
  "bsig0 x = rotr 2 x XOR rotr 13 x XOR rotr 22 x"

definition bsig1 :: "nat \<Rightarrow> nat" where
  "bsig1 x = rotr 6 x XOR rotr 11 x XOR rotr 25 x"

definition ssig0 :: "nat \<Rightarrow> nat" where
  "ssig0 x = rotr 7 x XOR rotr 18 x XOR shr 3 x"

definition ssig1 :: "nat \<Rightarrow> nat" where
  "ssig1 x = rotr 17 x XOR rotr 19 x XOR shr 10 x"

text \<open>The message schedule: 16 words of the block extended to 64.\<close>

definition sched256 :: "nat list \<Rightarrow> nat list" where
  "sched256 ws =
     foldl (\<lambda>w i. w @ [add32 (add32 (add32 (ssig1 (w ! (i - 2))) (w ! (i - 7)))
                                (ssig0 (w ! (i - 15)))) (w ! (i - 16))])
       ws [16..<64]"

text \<open>One step of the extension, by name, for evaluating the schedule word by word.\<close>

definition sched256_step :: "nat list \<Rightarrow> nat \<Rightarrow> nat list" where
  "sched256_step w i =
     w @ [add32 (add32 (add32 (ssig1 (w ! (i - 2))) (w ! (i - 7)))
                  (ssig0 (w ! (i - 15)))) (w ! (i - 16))]"

type_synonym st256 = "nat \<times> nat \<times> nat \<times> nat \<times> nat \<times> nat \<times> nat \<times> nat"

fun t1_256 :: "st256 \<Rightarrow> nat \<times> nat \<Rightarrow> nat" where
  "t1_256 (a, b, c, d, e, f, g, h) (k, w) =
     add32 (add32 (add32 (add32 h (bsig1 e)) (ch e f g)) k) w"

fun t2_256 :: "st256 \<Rightarrow> nat" where
  "t2_256 (a, b, c, d, e, f, g, h) = add32 (bsig0 a) (maj a b c)"

fun shift256 :: "st256 \<Rightarrow> nat \<Rightarrow> nat \<Rightarrow> st256" where
  "shift256 (a, b, c, d, e, f, g, h) t1 t2 = (add32 t1 t2, a, b, c, add32 d t1, e, f, g)"

definition round256 :: "st256 \<Rightarrow> nat \<times> nat \<Rightarrow> st256" where
  "round256 s kw = shift256 s (t1_256 s kw) (t2_256 s)"

fun add256 :: "st256 \<Rightarrow> st256 \<Rightarrow> st256" where
  "add256 (a, b, c, d, e, f, g, h) (a', b', c', d', e', f', g', h') =
     (add32 a a', add32 b b', add32 c c', add32 d d',
      add32 e e', add32 f f', add32 g g', add32 h h')"

definition block256 :: "st256 \<Rightarrow> byte list \<Rightarrow> st256" where
  "block256 s blk =
     add256 s (foldl round256 s (zip K256 (sched256 (map be32 (chunks 4 blk)))))"

definition init256 :: st256 where
  "init256 =
    (1779033703, 3144134277, 1013904242, 2773480762,
     1359893119, 2600822924, 528734635, 1541459225)"

fun out256 :: "st256 \<Rightarrow> byte list" where
  "out256 (a, b, c, d, e, f, g, h) =
     put_be32 a @ put_be32 b @ put_be32 c @ put_be32 d @
     put_be32 e @ put_be32 f @ put_be32 g @ put_be32 h"

definition sha256 :: "byte list \<Rightarrow> byte list" where
  "sha256 m = out256 (foldl block256 init256 (chunks 64 (md_pad m)))"

subsection \<open>SHA-1\<close>

definition sched1 :: "nat list \<Rightarrow> nat list" where
  "sched1 ws =
     foldl (\<lambda>w i. w @ [rotl 1 (w ! (i - 3) XOR w ! (i - 8) XOR w ! (i - 14) XOR w ! (i - 16))])
       ws [16..<80]"

definition sched1_step :: "nat list \<Rightarrow> nat \<Rightarrow> nat list" where
  "sched1_step w i =
     w @ [rotl 1 (w ! (i - 3) XOR w ! (i - 8) XOR w ! (i - 14) XOR w ! (i - 16))]"

type_synonym st1 = "nat \<times> nat \<times> nat \<times> nat \<times> nat"

definition f1 :: "nat \<Rightarrow> nat \<Rightarrow> nat \<Rightarrow> nat \<Rightarrow> nat" where
  "f1 i b c d =
     (if i < 20 then (b AND c) OR (not32 b AND d)
      else if i < 40 then b XOR c XOR d
      else if i < 60 then (b AND c) OR (b AND d) OR (c AND d)
      else b XOR c XOR d)"

definition k1 :: "nat \<Rightarrow> nat" where
  "k1 i =
     (if i < 20 then 1518500249 else if i < 40 then 1859775393
      else if i < 60 then 2400959708 else 3395469782)"

fun round1 :: "st1 \<Rightarrow> nat \<times> nat \<Rightarrow> st1" where
  "round1 (a, b, c, d, e) (i, w) =
     (add32 (add32 (add32 (add32 (rotl 5 a) (f1 i b c d)) e) (k1 i)) w, a, rotl 30 b, c, d)"

fun add1 :: "st1 \<Rightarrow> st1 \<Rightarrow> st1" where
  "add1 (a, b, c, d, e) (a', b', c', d', e') =
     (add32 a a', add32 b b', add32 c c', add32 d d', add32 e e')"

definition block1 :: "st1 \<Rightarrow> byte list \<Rightarrow> st1" where
  "block1 s blk = add1 s (foldl round1 s (zip [0..<80] (sched1 (map be32 (chunks 4 blk)))))"

definition init1 :: st1 where
  "init1 = (1732584193, 4023233417, 2562383102, 271733878, 3285377520)"

fun out1 :: "st1 \<Rightarrow> byte list" where
  "out1 (a, b, c, d, e) = put_be32 a @ put_be32 b @ put_be32 c @ put_be32 d @ put_be32 e"

definition sha1 :: "byte list \<Rightarrow> byte list" where
  "sha1 m = out1 (foldl block1 init1 (chunks 64 (md_pad m)))"

subsection \<open>HMAC-SHA256\<close>

text \<open>
  \<^verbatim>\<open>hmac.New(sha256.New, key)\<close>, \<^verbatim>\<open>Write(msg)\<close>, \<^verbatim>\<open>Sum(nil)\<close>: a key longer than the
  64-byte block is hashed first, then padded with zeros to the block size.
\<close>

definition hmac_key :: "byte list \<Rightarrow> byte list" where
  "hmac_key key = copy_into 64 (if 64 < length key then sha256 key else key)"

definition hmac_sha256 :: "byte list \<Rightarrow> byte list \<Rightarrow> byte list" where
  "hmac_sha256 key msg =
     sha256 (map (\<lambda>b. b XOR 0x5c) (hmac_key key)
             @ sha256 (map (\<lambda>b. b XOR 0x36) (hmac_key key) @ msg))"

section \<open>wherez.go: peers and the infohash\<close>

text \<open>
  The reasons of \<^verbatim>\<open>net.AddrError\<close> that \<^verbatim>\<open>net.SplitHostPort\<close> gives: missing port
  in address, too many colons in address, missing closing bracket in address, unexpected
  opening bracket in address, unexpected closing bracket in address.
\<close>

datatype addr_why =
    MissingPort
  | TooManyColons
  | MissingBracket
  | UnexpectedOpen
  | UnexpectedClose

datatype error =
    DialError
  | RandError
  | WriteError
  | EOF
  | ErrUnexpectedEOF
  | InvalidChallengeResponse
  | AddrError addr_why
  | ListenError
  | DHTError

record Peer =
  Addr :: string

definition String :: "Peer \<Rightarrow> string" where
  "String p = Addr p"

text \<open>
  \<^verbatim>\<open>infoHash\<close>: SHA-256 of the passphrase, the first \<^verbatim>\<open>sha256.Size/2\<close> bytes of it, and
  the SHA-1 of those. The error result is always \<^verbatim>\<open>nil\<close>.
\<close>

definition infoHash :: "byte list \<Rightarrow> error + byte list" where
  "infoHash passphrase =
     (let h = sha256 passphrase;
          h2 = take (32 div 2) h;
          h3 = sha1 h2
      in Inr h3)"

section \<open>auth.go: process state\<close>

definition magicHeader :: "byte list" where
  "magicHeader = ascii ''wherez''"

definition messageLen :: nat where
  "messageLen = 20"

definition dedupeLen :: nat where
  "dedupeLen = 10"

text \<open>
  The package-level variables \<^verbatim>\<open>dedupe\<close> and \<^verbatim>\<open>allowSelfConnection\<close> of one process,
  together with its source of random bytes (\<^verbatim>\<open>crypto/rand\<close>): a stream of bytes, the
  read positions at which \<^verbatim>\<open>rand.Read\<close> fails, and the position reached.
\<close>

record node =
  dedupe :: "byte list"
  allowSelfConnection :: bool
  entropy :: "nat \<Rightarrow> byte"
  entropy_err :: "nat \<Rightarrow> bool"
  entropy_pos :: nat

definition randMsg :: "node \<Rightarrow> (error + byte list) \<times> node" where
  "randMsg nd =
     (let b = map (entropy nd) [entropy_pos nd ..< entropy_pos nd + 20];
          nd1 = nd\<lparr>entropy_pos := entropy_pos nd + 20\<rparr>
      in if entropy_err nd (entropy_pos nd) then (Inl RandError, nd1) else (Inr b, nd1))"

text \<open>\<^verbatim>\<open>init\<close>: \<open>None\<close> is \<^verbatim>\<open>log.Fatalln\<close>.\<close>

definition init :: "node \<Rightarrow> node option" where
  "init nd =
     (case randMsg nd of
        (Inl err, nd1) \<Rightarrow> None
      | (Inr b, nd1) \<Rightarrow> Some (nd1\<lparr>dedupe := take dedupeLen b, allowSelfConnection := False\<rparr>))"

section \<open>auth.go: the two messages and their wire form\<close>

record Challenge =
  MagicHeader :: "byte list"
  Dedupe :: "byte list"
  Challenge :: "byte list"

record Response =
  Port :: "16 word"
  MAC :: "byte list"

definition newChallenge :: "node \<Rightarrow> (error + Challenge) \<times> node" where
  "newChallenge nd =
     (case randMsg nd of
        (Inl err, nd1) \<Rightarrow> (Inl err, nd1)
      | (Inr challenge, nd1) \<Rightarrow>
          (Inr \<lparr>MagicHeader = copy_into 6 magicHeader,
                Dedupe = copy_into 10 (dedupe nd),
                Challenge = copy_into 20 challenge\<rparr>, nd1))"

text \<open>\<^verbatim>\<open>binary.LittleEndian\<close> on a \<^verbatim>\<open>uint16\<close>.\<close>

definition put_le16 :: "16 word \<Rightarrow> byte list" where
  "put_le16 v = [ucast v, ucast (drop_bit 8 v)]"

fun get_le16 :: "byte list \<Rightarrow> 16 word" where
  "get_le16 (b0 # b1 # bs) = ucast b0 OR push_bit 8 (ucast b1)"
| "get_le16 _ = 0"

text \<open>\<^verbatim>\<open>binary.Write\<close> and \<^verbatim>\<open>binary.Read\<close> of the two fixed-size structs.\<close>

definition put_Challenge :: "Challenge \<Rightarrow> byte list" where
  "put_Challenge m = MagicHeader m @ Dedupe m @ Challenge m"

definition get_Challenge :: "byte list \<Rightarrow> Challenge" where
  "get_Challenge bs =
     \<lparr>MagicHeader = take 6 bs, Dedupe = take 10 (drop 6 bs), Challenge = take 20 (drop 16 bs)\<rparr>"

definition put_Response :: "Response \<Rightarrow> byte list" where
  "put_Response r = put_le16 (Port r) @ MAC r"

definition get_Response :: "byte list \<Rightarrow> Response" where
  "get_Response bs = \<lparr>Port = get_le16 (take 2 bs), MAC = take 32 (drop 2 bs)\<rparr>"

text \<open>
  \<^verbatim>\<open>io.ReadFull\<close>, which \<^verbatim>\<open>binary.Read\<close> uses, on a stream that delivers the given bytes
  and then ends: \<open>n\<close> bytes and the rest of the stream, or \<^verbatim>\<open>EOF\<close> when nothing came
  and \<^verbatim>\<open>ErrUnexpectedEOF\<close> when too little did.
\<close>

definition ReadFull :: "nat \<Rightarrow> byte list \<Rightarrow> error + byte list \<times> byte list" where
  "ReadFull n bs =
     (if n \<le> length bs then Inr (take n bs, drop n bs)
      else if bs = [] then Inl EOF else Inl ErrUnexpectedEOF)"

section \<open>auth.go: the server side\<close>

text \<open>
  The \<^verbatim>\<open>io.ReadWriteCloser\<close> handed to \<^verbatim>\<open>handleConn\<close>: the bytes the remote end
  delivers before its stream ends, the bytes written back so far, and whether the
  connection has been closed.
\<close>

record rwc =
  inbound :: "byte list"
  outbound :: "byte list"
  closed :: bool

definition conn_Read :: "nat \<Rightarrow> rwc \<Rightarrow> (error + byte list) \<times> rwc" where
  "conn_Read n conn =
     (case ReadFull n (inbound conn) of
        Inl err \<Rightarrow> (Inl err, conn\<lparr>inbound := []\<rparr>)
      | Inr (bs, rest) \<Rightarrow> (Inr bs, conn\<lparr>inbound := rest\<rparr>))"

definition conn_Write :: "byte list \<Rightarrow> rwc \<Rightarrow> rwc" where
  "conn_Write bs conn = conn\<lparr>outbound := outbound conn @ bs\<rparr>"

definition Close :: "rwc \<Rightarrow> rwc" where
  "Close conn = conn\<lparr>closed := True\<rparr>"

text \<open>A fresh connection on which the remote end delivers the given bytes.\<close>

definition incoming :: "byte list \<Rightarrow> rwc" where
  "incoming bs = \<lparr>inbound = bs, outbound = [], closed = False\<rparr>"

text \<open>
  \<^verbatim>\<open>handleConn\<close>. The deferred \<^verbatim>\<open>conn.Close()\<close> runs on every path; the result of the
  final write is ignored by the source.
\<close>

definition handleConn :: "node \<Rightarrow> rwc \<Rightarrow> int \<Rightarrow> byte list \<Rightarrow> rwc" where
  "handleConn nd conn appPort passphrase =
     Close
       (case conn_Read 36 conn of
          (Inl err, conn1) \<Rightarrow> conn1
        | (Inr bs, conn1) \<Rightarrow>
            (let inp = get_Challenge bs in
             if MagicHeader inp \<noteq> magicHeader then conn1
             else if \<not> allowSelfConnection nd \<and> Dedupe inp = dedupe nd then conn1
             else
               (let mac = hmac_sha256 passphrase (Challenge inp);
                    response = \<lparr>Port = word_of_int appPort, MAC = copy_into 32 mac\<rparr>
                in conn_Write (put_Response response) conn1)))"

definition checkMAC :: "byte list \<Rightarrow> byte list \<Rightarrow> byte list \<Rightarrow> bool" where
  "checkMAC message messageMAC key = (messageMAC = hmac_sha256 key message)"

text \<open>
  The operating system and the DHT library as the driver sees them: whether
  \<^verbatim>\<open>net.ListenTCP\<close> binds a port (and to which address), and whether
  \<^verbatim>\<open>dht.NewDHTNode\<close> succeeds.
\<close>

record env =
  ListenTCP :: "int \<Rightarrow> error + string"
  NewDHTNode :: "int \<Rightarrow> int \<Rightarrow> bool \<Rightarrow> error option"

text \<open>
  \<^verbatim>\<open>listenAuth\<close>: bind, then serve every accepted connection with \<^verbatim>\<open>handleConn\<close> and
  the \<^verbatim>\<open>appPort\<close> and \<^verbatim>\<open>passphrase\<close> given. The listener is its address together with
  what its accept loop runs on each connection.
\<close>

record listener =
  ln_addr :: string
  ln_serve :: "rwc \<Rightarrow> rwc"

definition listenAuth :: "env \<Rightarrow> node \<Rightarrow> int \<Rightarrow> int \<Rightarrow> byte list \<Rightarrow> error + listener" where
  "listenAuth ev nd port appPort passphrase =
     (case ListenTCP ev port of
        Inl err \<Rightarrow> Inl err
      | Inr addr \<Rightarrow>
          Inr \<lparr>ln_addr = addr, ln_serve = (\<lambda>conn. handleConn nd conn appPort passphrase)\<rparr>)"

section \<open>auth.go: the client side\<close>

text \<open>
  A dialed \<^verbatim>\<open>net.Conn\<close>: the remote address of the connection, the outcome of writing
  to it, and the bytes the remote end sends back, before closing, in answer to the bytes
  written.
\<close>

record net_conn =
  RemoteAddr :: string
  write_err :: "error option"
  remote :: "byte list \<Rightarrow> byte list"

text \<open>The network: what \<^verbatim>\<open>net.Dial("tcp", addr)\<close> returns for an address.\<close>

type_synonym network = "string \<Rightarrow> error + net_conn"

text \<open>A connection accepted by a listener, seen from the dialing side.\<close>

definition accepted :: "listener \<Rightarrow> string \<Rightarrow> net_conn" where
  "accepted ln raddr =
     \<lparr>RemoteAddr = raddr, write_err = None,
      remote = (\<lambda>sent. outbound (ln_serve ln (incoming sent)))\<rparr>"

definition net_Write :: "net_conn \<Rightarrow> byte list \<Rightarrow> error + byte list" where
  "net_Write conn bs = (case write_err conn of Some err \<Rightarrow> Inl err | None \<Rightarrow> Inr (remote conn bs))"

text \<open>\<^verbatim>\<open>net.SplitHostPort\<close> of the Go standard library.\<close>

fun index_byte :: "string \<Rightarrow> char \<Rightarrow> nat option" where
  "index_byte [] c = None"
| "index_byte (x # xs) c = (if x = c then Some 0 else map_option Suc (index_byte xs c))"

fun last_index :: "string \<Rightarrow> char \<Rightarrow> nat option" where
  "last_index [] c = None"
| "last_index (x # xs) c =
     (case last_index xs c of
        Some i \<Rightarrow> Some (Suc i)
      | None \<Rightarrow> if x = c then Some 0 else None)"

definition SplitHostPort :: "string \<Rightarrow> error + string \<times> string" where
  "SplitHostPort hostport =
     (case last_index hostport CHR '':'' of
        None \<Rightarrow> Inl (AddrError MissingPort)
      | Some i \<Rightarrow>
          if take 1 hostport = ''[''
          then
            (case index_byte hostport CHR '']'' of
               None \<Rightarrow> Inl (AddrError MissingBracket)
             | Some e \<Rightarrow>
                 if e + 1 = length hostport then Inl (AddrError MissingPort)
                 else if e + 1 = i
                 then
                   (if index_byte (drop 1 hostport) CHR ''['' \<noteq> None
                    then Inl (AddrError UnexpectedOpen)
                    else if index_byte (drop (e + 1) hostport) CHR '']'' \<noteq> None
                    then Inl (AddrError UnexpectedClose)
                    else Inr (take (e - 1) (drop 1 hostport), drop (i + 1) hostport))
                 else if take 1 (drop (e + 1) hostport) = '':''
                 then Inl (AddrError TooManyColons)
                 else Inl (AddrError MissingPort))
          else
            (if index_byte (take i hostport) CHR '':'' \<noteq> None
             then Inl (AddrError TooManyColons)
             else if index_byte hostport CHR ''['' \<noteq> None
             then Inl (AddrError UnexpectedOpen)
             else if index_byte hostport CHR '']'' \<noteq> None
             then Inl (AddrError UnexpectedClose)
             else Inr (take i hostport, drop (i + 1) hostport)))"

text \<open>\<^verbatim>\<open>%v\<close> of an unsigned integer: its decimal digits.\<close>

fun itoa :: "nat \<Rightarrow> string" where
  "itoa n =
     (if n < 10 then [''0123456789'' ! n]
      else itoa (n div 10) @ [''0123456789'' ! (n mod 10)])"

declare itoa.simps [simp del]

text \<open>\<^verbatim>\<open>verifyPeer\<close>, with the process state threaded through for the fresh challenge.\<close>

definition verifyPeer :: "network \<Rightarrow> node \<Rightarrow> string \<Rightarrow> byte list \<Rightarrow> (error + Peer) \<times> node" where
  "verifyPeer net nd peer passphrase =
     (case net peer of
        Inl err \<Rightarrow> (Inl err, nd)
      | Inr conn \<Rightarrow>
          (case newChallenge nd of
             (Inl err, nd1) \<Rightarrow> (Inl err, nd1)
           | (Inr challenge, nd1) \<Rightarrow>
               (case net_Write conn (put_Challenge challenge) of
                  Inl err \<Rightarrow> (Inl err, nd1)
                | Inr reply \<Rightarrow>
                    (case ReadFull 34 reply of
                       Inl err \<Rightarrow> (Inl err, nd1)
                     | Inr (bs, rest) \<Rightarrow>
                         (let inp = get_Response bs in
                          if \<not> checkMAC (Challenge challenge) (MAC inp) passphrase
                          then (Inl InvalidChallengeResponse, nd1)
                          else
                            (case SplitHostPort peer of
                               Inl err \<Rightarrow> (Inl err, nd1)
                             | Inr (host, dialed) \<Rightarrow>
                                 (Inr \<lparr>Addr = host @ '':'' @ itoa (unat (Port inp))\<rparr>, nd1)))))))"

text \<open>
  \<^verbatim>\<open>checkPeer\<close>. The channel is the sequence of peers sent on it so far; \<^verbatim>\<open>c <- peer\<close>
  appends.
\<close>

definition checkPeer :: "network \<Rightarrow> string \<Rightarrow> byte list \<Rightarrow> node \<times> Peer list \<Rightarrow> node \<times> Peer list" where
  "checkPeer net addr passphrase st =
     (case verifyPeer net (fst st) addr passphrase of
        (Inr peer, nd1) \<Rightarrow> (nd1, snd st @ [peer])
      | (Inl err, nd1) \<Rightarrow> (nd1, snd st))"

text \<open>
  \<^verbatim>\<open>obtainPeers\<close>: the three nested \<^verbatim>\<open>range\<close> loops over the results received from the
  DHT, each result a map from infohash to compact peer addresses, listed in the order
  iterated. \<^verbatim>\<open>dht.DecodePeerAddress\<close> is the library's.
\<close>

definition obtainPeers ::
  "(string \<Rightarrow> string) \<Rightarrow> network \<Rightarrow> (string \<times> string list) list list \<Rightarrow> byte list
     \<Rightarrow> node \<times> Peer list \<Rightarrow> node \<times> Peer list" where
  "obtainPeers DecodePeerAddress net results passphrase st =
     foldl (\<lambda>st r.
        foldl (\<lambda>st peers.
           foldl (\<lambda>st x. checkPeer net (DecodePeerAddress x) passphrase st) st (snd peers))
          st r)
       st results"

section \<open>wherez.go: the driver\<close>

datatype event =
    Listening string int
  | DHTNode int int bool
  | AddNode string
  | GoDoDHT
  | GoObtainPeers
  | PeersRequest "byte list" bool
  | Sleep nat

text \<open>What the driver has done so far, and whether the output channel is closed.\<close>

record driver =
  events :: "event list"
  chan_closed :: bool

datatype 'a outcome = is_Returned: Returned (state: 'a) | Running (state: 'a)

definition emit :: "event \<Rightarrow> driver \<Rightarrow> driver" where
  "emit e s = s\<lparr>events := events s @ [e]\<rparr>"

text \<open>
  The request loop \<^verbatim>\<open>for { d.PeersRequest(string(ih), true); time.Sleep(5 * time.Second) }\<close>
  has no exit: after any number of iterations it is still running.
\<close>

fun request_loop :: "nat \<Rightarrow> byte list \<Rightarrow> driver \<Rightarrow> driver outcome" where
  "request_loop 0 ih s = Running s"
| "request_loop (Suc n) ih s = request_loop n ih (emit (Sleep 5) (emit (PeersRequest ih True) s))"

definition run_driver ::
  "env \<Rightarrow> node \<Rightarrow> int \<Rightarrow> int \<Rightarrow> int \<Rightarrow> byte list \<Rightarrow> nat \<Rightarrow> driver \<Rightarrow> driver outcome" where
  "run_driver ev nd port appPort minPeers passphrase n s =
     (case infoHash passphrase of
        Inl err \<Rightarrow> Returned s
      | Inr ih \<Rightarrow>
          (case (if appPort > 0
                 then (case listenAuth ev nd port appPort passphrase of
                         Inl err \<Rightarrow> Inl err
                       | Inr ln \<Rightarrow> Inr (True, emit (Listening (ln_addr ln) appPort) s))
                 else Inr (False, s)) of
             Inl err \<Rightarrow> Returned s
           | Inr (announce, s1) \<Rightarrow>
               (case NewDHTNode ev port minPeers announce of
                  Some err \<Rightarrow> Returned s1
                | None \<Rightarrow>
                    request_loop n ih
                      (emit GoObtainPeers (emit GoDoDHT
                        (emit (AddNode ''213.239.195.138:40000'')
                          (emit (DHTNode port minPeers announce) s1)))))))"

text \<open>
  \<^verbatim>\<open>findAuthenticatedPeers\<close>: the body above under \<^verbatim>\<open>defer close(c)\<close>, which runs when,
  and only when, the body returns. The last argument bounds the iterations of the request
  loop that are observed.
\<close>

definition findAuthenticatedPeers ::
  "env \<Rightarrow> node \<Rightarrow> int \<Rightarrow> int \<Rightarrow> int \<Rightarrow> byte list \<Rightarrow> nat \<Rightarrow> driver \<Rightarrow> driver outcome" where
  "findAuthenticatedPeers ev nd port appPort minPeers passphrase n s =
     (case run_driver ev nd port appPort minPeers passphrase n s of
        Returned s1 \<Rightarrow> Returned (s1\<lparr>chan_closed := True\<rparr>)
      | Running s1 \<Rightarrow> Running s1)"

text \<open>\<^verbatim>\<open>FindAuthenticatedPeers\<close>: a fresh channel and the driver started on it.\<close>

definition FindAuthenticatedPeers ::
  "env \<Rightarrow> node \<Rightarrow> int \<Rightarrow> int \<Rightarrow> int \<Rightarrow> byte list \<Rightarrow> nat \<Rightarrow> driver outcome" where
  "FindAuthenticatedPeers ev nd port appPort minPeers passphrase n =
     findAuthenticatedPeers ev nd port appPort minPeers passphrase n
       \<lparr>events = [], chan_closed = False\<rparr>"

section \<open>The fixtures of the tests in auth-test.go\<close>

text \<open>
  A process whose \<^verbatim>\<open>init\<close> drew the dedupe ID \<open>1, ..., 10\<close>, with the self-connection
  check in force, and the same process after \<^verbatim>\<open>allowSelfConnection = true\<close>.
\<close>

definition test_node :: node where
  "test_node =
     \<lparr>dedupe = [1, 2, 3, 4, 5, 6, 7, 8, 9, 10], allowSelfConnection = False,
      entropy = (\<lambda>i. of_nat i), entropy_err = (\<lambda>i. False), entropy_pos = 20\<rparr>"

definition test_node_allow :: node where
  "test_node_allow = test_node\<lparr>allowSelfConnection := True\<rparr>"

text \<open>An operating system that binds every port, and a DHT library that starts.\<close>

definition test_env :: env where
  "test_env =
     \<lparr>ListenTCP = (\<lambda>port. Inr ''[::]:40000''), NewDHTNode = (\<lambda>port minPeers announce. None)\<rparr>"

text \<open>
  A challenge that carries the dedupe ID of \<open>test_node\<close>, and one from another process;
  both with the nonce of twenty bytes 7.
\<close>

definition self_challenge :: "byte list" where
  "self_challenge = ascii ''wherez'' @ [1, 2, 3, 4, 5, 6, 7, 8, 9, 10] @ replicate 20 7"

definition other_challenge :: "byte list" where
  "other_challenge = ascii ''wherez'' @ [9, 9, 9, 9, 9, 9, 9, 9, 9, 9] @ replicate 20 7"

text \<open>
  \<^verbatim>\<open>TestAuth\<close> and \<^verbatim>\<open>TestBrokenAuth\<close>: the listener that \<^verbatim>\<open>listenAuth\<close> starts in a process
  for application port 3000 and a passphrase, and a network in which dialing
  \<^verbatim>\<open>localhost:40000\<close> reaches that listener over the loopback interface and every other
  address is unreachable.
\<close>

definition test_listener :: "node \<Rightarrow> byte list \<Rightarrow> listener" where
  "test_listener nd passphrase =
     \<lparr>ln_addr = ''[::]:40000'', ln_serve = (\<lambda>conn. handleConn nd conn 3000 passphrase)\<rparr>"

definition test_net :: "listener \<Rightarrow> network" where
  "test_net ln addr =
     (if addr = ''localhost:40000'' then Inr (accepted ln ''127.0.0.1:40000'') else Inl DialError)"

text \<open>The addresses that \<^verbatim>\<open>obtainPeers\<close> hands to \<^verbatim>\<open>checkPeer\<close>, in order.\<close>

definition candidates :: "(string \<Rightarrow> string) \<Rightarrow> (string \<times> string list) list list \<Rightarrow> string list" where
  "candidates DecodePeerAddress results =
     map DecodePeerAddress (concat (map (\<lambda>r. concat (map snd r)) results))"

text \<open>
  A DHT result whose one compact address decodes to the address of the listener, and an
  operating system on which no port can be bound.
\<close>

definition test_decode :: "string \<Rightarrow> string" where
  "test_decode x = ''localhost:40000''"

definition test_results :: "(string \<times> string list) list list" where
  "test_results = [[(''ih'', [''x''])]]"

definition test_env_nobind :: env where
  "test_env_nobind =
     \<lparr>ListenTCP = (\<lambda>port. Inl ListenError), NewDHTNode = (\<lambda>port minPeers announce. None)\<rparr>"

section \<open>Basic facts\<close>

lemma length_copy_into: "length (copy_into n src) = n"
  by (simp add: copy_into_def)

lemma copy_into_same: "length src = n \<Longrightarrow> copy_into n src = src"
  by (simp add: copy_into_def)

lemma length_put_be32: "length (put_be32 w) = 4"
  by (simp add: put_be32_def)

lemma length_out256: "length (out256 s) = 32"
  by (induct s rule: out256.induct) (simp add: length_put_be32)

lemma length_out1: "length (out1 s) = 20"
  by (induct s rule: out1.induct) (simp add: length_put_be32)

lemma length_sha256: "length (sha256 m) = 32"
  by (simp add: sha256_def length_out256)

lemma length_sha1: "length (sha1 m) = 20"
  by (simp add: sha1_def length_out1)

lemma length_hmac_sha256: "length (hmac_sha256 key msg) = 32"
  by (simp add: hmac_sha256_def length_sha256)

lemma magicHeader_bytes: "magicHeader = [0x77, 0x68, 0x65, 0x72, 0x65, 0x7a]"
  by (simp add: magicHeader_def ascii_def)

lemma length_magicHeader: "length magicHeader = 6"
  by (simp add: magicHeader_bytes)

lemma length_put_le16: "length (put_le16 v) = 2"
  by (simp add: put_le16_def)

lemma get_le16_put_le16: "get_le16 (put_le16 v) = v"
  apply (simp add: put_le16_def)
  apply (rule bit_word_eqI)
  apply (auto simp add: bit_simps)
  done

lemma unat_word_of_int_16: "unat (word_of_int k :: 16 word) = nat (k mod 65536)"
  by (simp add: unat_eq_nat_uint uint_word_of_int)

lemma get_Response_put_Response:
  "length (MAC r) = 32 \<Longrightarrow> get_Response (put_Response r @ rest) = \<lparr>Port = Port r, MAC = MAC r\<rparr>"
  by (simp add: get_Response_def put_Response_def length_put_le16 get_le16_put_le16)

section \<open>The connection handler\<close>

lemma handleConn_short:
  assumes "length (inbound conn) < 36"
  shows "handleConn nd conn appPort passphrase = conn\<lparr>inbound := [], closed := True\<rparr>"
  using assms by (simp add: handleConn_def conn_Read_def ReadFull_def Close_def)

lemma conn_Read_36:
  assumes "36 \<le> length (inbound conn)"
  shows "conn_Read 36 conn =
           (Inr (take 36 (inbound conn)), conn\<lparr>inbound := drop 36 (inbound conn)\<rparr>)"
  using assms by (simp add: conn_Read_def ReadFull_def)

lemma get_Challenge_take:
  "get_Challenge (take 36 bs) =
     \<lparr>MagicHeader = take 6 bs, Dedupe = take 10 (drop 6 bs), Challenge = take 20 (drop 16 bs)\<rparr>"
  by (simp add: get_Challenge_def drop_take)

lemma handleConn_bad_magic:
  assumes "36 \<le> length (inbound conn)" and "take 6 (inbound conn) \<noteq> magicHeader"
  shows "handleConn nd conn appPort passphrase =
           conn\<lparr>inbound := drop 36 (inbound conn), closed := True\<rparr>"
  using assms by (simp add: handleConn_def conn_Read_36 get_Challenge_take Close_def)

lemma handleConn_self:
  assumes "36 \<le> length (inbound conn)" and "take 6 (inbound conn) = magicHeader"
    and "\<not> allowSelfConnection nd" and "take 10 (drop 6 (inbound conn)) = dedupe nd"
  shows "handleConn nd conn appPort passphrase =
           conn\<lparr>inbound := drop 36 (inbound conn), closed := True\<rparr>"
  using assms by (simp add: handleConn_def conn_Read_36 get_Challenge_take Close_def)

lemma handleConn_answer:
  assumes "36 \<le> length (inbound conn)" and "take 6 (inbound conn) = magicHeader"
    and "allowSelfConnection nd \<or> take 10 (drop 6 (inbound conn)) \<noteq> dedupe nd"
  shows "handleConn nd conn appPort passphrase =
           conn\<lparr>inbound := drop 36 (inbound conn),
                outbound := outbound conn @ put_le16 (word_of_int appPort)
                              @ hmac_sha256 passphrase (take 20 (drop 16 (inbound conn))),
                closed := True\<rparr>"
  using assms
  by (auto simp add: handleConn_def conn_Read_36 get_Challenge_take Close_def conn_Write_def
      put_Response_def copy_into_same length_hmac_sha256 Let_def)

lemma replicate_numeral: "replicate (numeral n) x = x # replicate (pred_numeral n) x"
  by (simp add: numeral_eq_Suc)

text \<open>
  C7 (framing guard). A connection that delivers fewer than 36 bytes, or whose first six
  bytes are not the ASCII string wherez, gets no byte written back, and the handler closes it.
\<close>

theorem handleConn_framing_guard:
  assumes "length (inbound conn) < 36 \<or> take 6 (inbound conn) \<noteq> magicHeader"
  shows "outbound (handleConn nd conn appPort passphrase) = outbound conn
         \<and> closed (handleConn nd conn appPort passphrase)"
proof (cases "length (inbound conn) < 36")
  case True
  then show ?thesis by (simp add: handleConn_short)
next
  case False
  with assms have "36 \<le> length (inbound conn)" and "take 6 (inbound conn) \<noteq> magicHeader"
    by auto
  then show ?thesis by (simp add: handleConn_bad_magic)
qed

theorem handleConn_framing_guard_witness:
  "length (inbound (incoming (ascii ''XXXXXX'' @ replicate 30 0))) = 36
   \<and> take 6 (inbound (incoming (ascii ''XXXXXX'' @ replicate 30 0))) \<noteq> magicHeader
   \<and> outbound (handleConn test_node (incoming (ascii ''XXXXXX'' @ replicate 30 0)) 3000
        (ascii ''secret'')) = []
   \<and> closed (handleConn test_node (incoming (ascii ''XXXXXX'' @ replicate 30 0)) 3000
        (ascii ''secret''))
   \<and> length (inbound (incoming (ascii ''wherez''))) < 36
   \<and> outbound (handleConn test_node (incoming (ascii ''wherez'')) 3000 (ascii ''secret'')) = []
   \<and> closed (handleConn test_node (incoming (ascii ''wherez'')) 3000 (ascii ''secret''))"
proof -
  have m: "take 6 (inbound (incoming (ascii ''XXXXXX'' @ replicate 30 0))) \<noteq> magicHeader"
    by (simp add: incoming_def ascii_def magicHeader_bytes)
  have s: "length (inbound (incoming (ascii ''wherez''))) < 36"
    by (simp add: incoming_def ascii_def)
  have l: "length (inbound (incoming (ascii ''XXXXXX'' @ replicate 30 0))) = 36"
    by (simp add: incoming_def ascii_def)
  from m have 1: "length (inbound (incoming (ascii ''XXXXXX'' @ replicate 30 0))) < 36
      \<or> take 6 (inbound (incoming (ascii ''XXXXXX'' @ replicate 30 0))) \<noteq> magicHeader"
    by simp
  from s have 2: "length (inbound (incoming (ascii ''wherez''))) < 36
      \<or> take 6 (inbound (incoming (ascii ''wherez''))) \<noteq> magicHeader"
    by simp
  have o: "outbound (incoming (ascii ''XXXXXX'' @ replicate 30 0)) = []"
    "outbound (incoming (ascii ''wherez'')) = []"
    by (simp_all add: incoming_def)
  show ?thesis
    using handleConn_framing_guard [OF 1, of test_node 3000 "ascii ''secret''"]
      handleConn_framing_guard [OF 2, of test_node 3000 "ascii ''secret''"] m s l o
    by simp
qed

text \<open>
  C6 (self-filter). On a 36-byte challenge with the magic header and the process's own
  dedupe ID: with \<^verbatim>\<open>allowSelfConnection\<close> false the handler closes the connection and writes
  nothing; with \<^verbatim>\<open>allowSelfConnection\<close> true it answers as for any other challenge, with the
  port and the MAC of the nonce.
\<close>

theorem handleConn_self_filter:
  assumes "36 \<le> length (inbound conn)"
    and "take 6 (inbound conn) = magicHeader"
    and "take 10 (drop 6 (inbound conn)) = dedupe nd"
  shows "(\<not> allowSelfConnection nd \<longrightarrow>
            outbound (handleConn nd conn appPort passphrase) = outbound conn
            \<and> closed (handleConn nd conn appPort passphrase))
         \<and> (allowSelfConnection nd \<longrightarrow>
            outbound (handleConn nd conn appPort passphrase) =
              outbound conn @ put_le16 (word_of_int appPort)
                @ hmac_sha256 passphrase (take 20 (drop 16 (inbound conn)))
            \<and> closed (handleConn nd conn appPort passphrase))"
  using assms by (simp add: handleConn_self handleConn_answer)

theorem handleConn_self_filter_witness:
  "36 \<le> length (inbound (incoming self_challenge))
   \<and> take 6 (inbound (incoming self_challenge)) = magicHeader
   \<and> take 10 (drop 6 (inbound (incoming self_challenge))) = dedupe test_node
   \<and> take 10 (drop 6 (inbound (incoming self_challenge))) = dedupe test_node_allow
   \<and> \<not> allowSelfConnection test_node
   \<and> outbound (handleConn test_node (incoming self_challenge) 3000 (ascii ''secret'')) = []
   \<and> closed (handleConn test_node (incoming self_challenge) 3000 (ascii ''secret''))
   \<and> allowSelfConnection test_node_allow
   \<and> outbound (handleConn test_node_allow (incoming self_challenge) 3000 (ascii ''secret'')) =
        put_le16 3000 @ hmac_sha256 (ascii ''secret'') (replicate 20 7)
   \<and> closed (handleConn test_node_allow (incoming self_challenge) 3000 (ascii ''secret''))"
proof -
  have l: "36 \<le> length (inbound (incoming self_challenge))"
    by (simp add: incoming_def self_challenge_def ascii_def)
  have m: "take 6 (inbound (incoming self_challenge)) = magicHeader"
    by (simp add: incoming_def self_challenge_def ascii_def magicHeader_bytes)
  have d: "take 10 (drop 6 (inbound (incoming self_challenge))) = dedupe test_node"
    by (simp add: incoming_def self_challenge_def ascii_def test_node_def)
  have d': "take 10 (drop 6 (inbound (incoming self_challenge))) = dedupe test_node_allow"
    by (simp add: incoming_def self_challenge_def ascii_def test_node_def test_node_allow_def)
  have n: "take 20 (drop 16 (inbound (incoming self_challenge))) = replicate 20 7"
    by (simp add: incoming_def self_challenge_def ascii_def)
  have a: "\<not> allowSelfConnection test_node" "allowSelfConnection test_node_allow"
    by (simp_all add: test_node_def test_node_allow_def)
  have o: "outbound (incoming self_challenge) = []"
    by (simp add: incoming_def)
  show ?thesis
    using handleConn_self_filter [OF l m d, of 3000 "ascii ''secret''"]
      handleConn_self_filter [OF l m d', of 3000 "ascii ''secret''"] l m d d' n a o
    by simp
qed

text \<open>
  C4 (MAC coverage). For every accepted 36-byte challenge the handler writes 34 bytes: the
  port in two bytes, little-endian, then the 32 bytes of HMAC-SHA256 keyed by the
  passphrase over bytes 16..35 of the challenge, the nonce. Magic header and dedupe ID do
  not enter the MAC: two accepted challenges with the same nonce are answered by the same
  MAC, whatever their dedupe IDs.
\<close>

theorem handleConn_mac_over_nonce:
  assumes "36 \<le> length (inbound conn)"
    and "take 6 (inbound conn) = magicHeader"
    and "allowSelfConnection nd \<or> take 10 (drop 6 (inbound conn)) \<noteq> dedupe nd"
    and "36 \<le> length (inbound conn')"
    and "take 6 (inbound conn') = magicHeader"
    and "allowSelfConnection nd \<or> take 10 (drop 6 (inbound conn')) \<noteq> dedupe nd"
    and "take 20 (drop 16 (inbound conn')) = take 20 (drop 16 (inbound conn))"
  shows "outbound (handleConn nd conn appPort passphrase) =
           outbound conn @ put_le16 (word_of_int appPort)
             @ hmac_sha256 passphrase (take 20 (drop 16 (inbound conn)))
         \<and> length (put_le16 (word_of_int appPort)
                    @ hmac_sha256 passphrase (take 20 (drop 16 (inbound conn)))) = 34
         \<and> length (take 20 (drop 16 (inbound conn))) = 20
         \<and> MAC (get_Response (drop (length (outbound conn))
                  (outbound (handleConn nd conn appPort passphrase)))) =
             hmac_sha256 passphrase (take 20 (drop 16 (inbound conn)))
         \<and> MAC (get_Response (drop (length (outbound conn'))
                  (outbound (handleConn nd conn' appPort passphrase)))) =
             MAC (get_Response (drop (length (outbound conn))
                  (outbound (handleConn nd conn appPort passphrase))))"
proof -
  have "get_Response (put_le16 (word_of_int appPort) @ hmac_sha256 passphrase m) =
          \<lparr>Port = word_of_int appPort, MAC = hmac_sha256 passphrase m\<rparr>" for m
    using get_Response_put_Response
      [of "\<lparr>Port = word_of_int appPort, MAC = hmac_sha256 passphrase m\<rparr>" "[]"]
    by (simp add: length_hmac_sha256 put_Response_def)
  with assms show ?thesis
    by (simp add: handleConn_answer length_put_le16 length_hmac_sha256)
qed

theorem handleConn_mac_over_nonce_witness:
  "36 \<le> length (inbound (incoming self_challenge))
   \<and> take 6 (inbound (incoming self_challenge)) = magicHeader
   \<and> allowSelfConnection test_node_allow
   \<and> 36 \<le> length (inbound (incoming other_challenge))
   \<and> take 6 (inbound (incoming other_challenge)) = magicHeader
   \<and> take 10 (drop 6 (inbound (incoming other_challenge)))
       \<noteq> take 10 (drop 6 (inbound (incoming self_challenge)))
   \<and> take 20 (drop 16 (inbound (incoming other_challenge))) =
       take 20 (drop 16 (inbound (incoming self_challenge)))
   \<and> outbound (handleConn test_node_allow (incoming self_challenge) 3000 (ascii ''secret'')) =
       put_le16 3000 @ hmac_sha256 (ascii ''secret'') (replicate 20 7)
   \<and> MAC (get_Response
         (outbound (handleConn test_node_allow (incoming other_challenge) 3000 (ascii ''secret'')))) =
       MAC (get_Response
         (outbound (handleConn test_node_allow (incoming self_challenge) 3000 (ascii ''secret''))))"
proof -
  have l: "36 \<le> length (inbound (incoming self_challenge))"
    and l': "36 \<le> length (inbound (incoming other_challenge))"
    by (simp_all add: incoming_def self_challenge_def other_challenge_def ascii_def)
  have m: "take 6 (inbound (incoming self_challenge)) = magicHeader"
    and m': "take 6 (inbound (incoming other_challenge)) = magicHeader"
    by (simp_all add: incoming_def self_challenge_def other_challenge_def ascii_def
        magicHeader_bytes)
  have a: "allowSelfConnection test_node_allow"
    by (simp add: test_node_def test_node_allow_def)
  then have d: "allowSelfConnection test_node_allow
      \<or> take 10 (drop 6 (inbound (incoming self_challenge))) \<noteq> dedupe test_node_allow"
    and d': "allowSelfConnection test_node_allow
      \<or> take 10 (drop 6 (inbound (incoming other_challenge))) \<noteq> dedupe test_node_allow"
    by simp_all
  have x: "take 10 (drop 6 (inbound (incoming other_challenge)))
       \<noteq> take 10 (drop 6 (inbound (incoming self_challenge)))"
    by (simp add: incoming_def self_challenge_def other_challenge_def ascii_def)
  have n: "take 20 (drop 16 (inbound (incoming self_challenge))) = replicate 20 7"
    and n': "take 20 (drop 16 (inbound (incoming other_challenge))) =
       take 20 (drop 16 (inbound (incoming self_challenge)))"
    by (simp_all add: incoming_def self_challenge_def other_challenge_def ascii_def)
  have o: "outbound (incoming self_challenge) = []" "outbound (incoming other_challenge) = []"
    by (simp_all add: incoming_def)
  show ?thesis
    using handleConn_mac_over_nonce [OF l m d l' m' d' n', of 3000 "ascii ''secret''"]
      l m a l' m' x n n' o
    by simp
qed

text \<open>
  C10 (port truncation). \<^verbatim>\<open>listenAuth\<close> hands any \<^verbatim>\<open>appPort\<close> to the handler without a
  check, and the \<^verbatim>\<open>Port\<close> field of every response is \<^verbatim>\<open>uint16(appPort)\<close>, that is
  \<open>appPort mod 2 ^ 16\<close>: whenever the port can be bound the listener starts, for any
  integer \<^verbatim>\<open>appPort\<close>, and answers every accepted challenge with that port. A listener
  configured with 65536 + 3000 advertises 3000.
\<close>

theorem listenAuth_port_truncation:
  assumes "ListenTCP ev port = Inr addr"
    and "36 \<le> length (inbound conn)"
    and "take 6 (inbound conn) = magicHeader"
    and "allowSelfConnection nd \<or> take 10 (drop 6 (inbound conn)) \<noteq> dedupe nd"
  shows "listenAuth ev nd port appPort passphrase =
           Inr \<lparr>ln_addr = addr, ln_serve = (\<lambda>conn. handleConn nd conn appPort passphrase)\<rparr>
         \<and> Port (get_Response (drop (length (outbound conn))
                   (outbound (handleConn nd conn appPort passphrase)))) = word_of_int appPort
         \<and> unat (Port (get_Response (drop (length (outbound conn))
                   (outbound (handleConn nd conn appPort passphrase))))) =
             nat (appPort mod 2 ^ 16)"
proof -
  have "get_Response (put_le16 (word_of_int appPort) @ hmac_sha256 passphrase m) =
          \<lparr>Port = word_of_int appPort, MAC = hmac_sha256 passphrase m\<rparr>" for m
    using get_Response_put_Response
      [of "\<lparr>Port = word_of_int appPort, MAC = hmac_sha256 passphrase m\<rparr>" "[]"]
    by (simp add: length_hmac_sha256 put_Response_def)
  with assms show ?thesis
    by (simp add: handleConn_answer listenAuth_def unat_word_of_int_16)
qed

theorem listenAuth_port_truncation_witness:
  "ListenTCP test_env 40000 = Inr ''[::]:40000''
   \<and> 36 \<le> length (inbound (incoming other_challenge))
   \<and> take 6 (inbound (incoming other_challenge)) = magicHeader
   \<and> take 10 (drop 6 (inbound (incoming other_challenge))) \<noteq> dedupe test_node
   \<and> listenAuth test_env test_node 40000 (65536 + 3000) (ascii ''secret'') =
        Inr \<lparr>ln_addr = ''[::]:40000'',
             ln_serve = (\<lambda>conn. handleConn test_node conn (65536 + 3000) (ascii ''secret''))\<rparr>
   \<and> unat (Port (get_Response
         (outbound (handleConn test_node (incoming other_challenge) (65536 + 3000)
            (ascii ''secret''))))) = 3000"
proof -
  have e: "ListenTCP test_env 40000 = Inr ''[::]:40000''"
    by (simp add: test_env_def)
  have l: "36 \<le> length (inbound (incoming other_challenge))"
    by (simp add: incoming_def other_challenge_def ascii_def)
  have m: "take 6 (inbound (incoming other_challenge)) = magicHeader"
    by (simp add: incoming_def other_challenge_def ascii_def magicHeader_bytes)
  have x: "take 10 (drop 6 (inbound (incoming other_challenge))) \<noteq> dedupe test_node"
    by (simp add: incoming_def other_challenge_def ascii_def test_node_def)
  then have d: "allowSelfConnection test_node
      \<or> take 10 (drop 6 (inbound (incoming other_challenge))) \<noteq> dedupe test_node"
    by simp
  have o: "outbound (incoming other_challenge) = []"
    by (simp add: incoming_def)
  show ?thesis
    using listenAuth_port_truncation [OF e l m d, of "65536 + 3000" "ascii ''secret''"] e l m x o
    by simp
qed

section \<open>The client against a listener\<close>

lemma length_randMsg:
  assumes "randMsg nd = (Inr nonce, nd1)"
  shows "length nonce = 20"
  using assms by (auto simp add: randMsg_def Let_def split: if_splits)

lemma newChallenge_Inr:
  assumes "randMsg nd = (Inr nonce, nd1)"
  shows "newChallenge nd =
           (Inr \<lparr>MagicHeader = magicHeader, Dedupe = copy_into 10 (dedupe nd),
                 Challenge = nonce\<rparr>, nd1)"
  using assms length_randMsg [OF assms]
  by (simp add: newChallenge_def copy_into_same length_magicHeader)

lemma newChallenge_Inl:
  assumes "randMsg nd = (Inl err, nd1)"
  shows "newChallenge nd = (Inl err, nd1)"
  using assms by (simp add: newChallenge_def)

lemma challenge_fields:
  assumes "length nonce = 20"
  shows "length (magicHeader @ copy_into 10 d @ nonce) = 36"
    and "take 6 (magicHeader @ copy_into 10 d @ nonce) = magicHeader"
    and "take 10 (drop 6 (magicHeader @ copy_into 10 d @ nonce)) = copy_into 10 d"
    and "take 20 (drop 16 (magicHeader @ copy_into 10 d @ nonce)) = nonce"
  using assms by (simp_all add: length_magicHeader length_copy_into)

text \<open>What a listener sends back on a connection, by the bytes it received.\<close>

lemma listener_reply:
  assumes "listenAuth ev srv port appPort key = Inr ln"
    and "length nonce = 20"
  shows "remote (accepted ln raddr) (magicHeader @ copy_into 10 d @ nonce) =
           (if \<not> allowSelfConnection srv \<and> copy_into 10 d = dedupe srv then []
            else put_le16 (word_of_int appPort) @ hmac_sha256 key nonce)"
proof -
  let ?c = "incoming (magicHeader @ copy_into 10 d @ nonce)"
  from assms(1) have serve: "ln_serve ln = (\<lambda>conn. handleConn srv conn appPort key)"
    by (auto simp add: listenAuth_def split: sum.splits)
  have c: "36 \<le> length (inbound ?c)" "take 6 (inbound ?c) = magicHeader"
    "take 10 (drop 6 (inbound ?c)) = copy_into 10 d"
    "take 20 (drop 16 (inbound ?c)) = nonce" "outbound ?c = []"
    by (simp_all only: incoming_def rwc.select_convs challenge_fields [OF assms(2), of d]
        order_refl)
  show ?thesis
  proof (cases "\<not> allowSelfConnection srv \<and> copy_into 10 d = dedupe srv")
    case True
    with c show ?thesis
      by (simp add: accepted_def serve handleConn_self)
  next
    case False
    with c have "allowSelfConnection srv \<or> take 10 (drop 6 (inbound ?c)) \<noteq> dedupe srv"
      by auto
    from handleConn_answer [OF c(1) c(2) this, of appPort key] c show ?thesis
      by (simp add: accepted_def serve False)
  qed
qed

lemma ReadFull_response:
  assumes "length mac = 32"
  shows "ReadFull 34 (put_le16 v @ mac) = Inr (put_le16 v @ mac, [])"
  using assms by (simp add: ReadFull_def length_put_le16)

lemma get_Response_wire:
  assumes "length mac = 32"
  shows "get_Response (put_le16 v @ mac) = \<lparr>Port = v, MAC = mac\<rparr>"
  using get_Response_put_Response [of "\<lparr>Port = v, MAC = mac\<rparr>" "[]"] assms
  by (simp add: put_Response_def)

text \<open>\<^verbatim>\<open>verifyPeer\<close> against a listener started by \<^verbatim>\<open>listenAuth\<close>, in every case.\<close>

lemma verifyPeer_listener:
  assumes "listenAuth ev srv port appPort key = Inr ln"
    and "net peer = Inr (accepted ln raddr)"
    and "randMsg nd = (Inr nonce, nd1)"
  shows "verifyPeer net nd peer passphrase =
           (if \<not> allowSelfConnection srv \<and> copy_into 10 (dedupe nd) = dedupe srv
            then (Inl EOF, nd1)
            else if hmac_sha256 key nonce \<noteq> hmac_sha256 passphrase nonce
            then (Inl InvalidChallengeResponse, nd1)
            else (case SplitHostPort peer of
                    Inl err \<Rightarrow> (Inl err, nd1)
                  | Inr (host, dialed) \<Rightarrow>
                      (Inr \<lparr>Addr = host @ '':'' @ itoa (unat (word_of_int appPort :: 16 word))\<rparr>,
                       nd1)))"
proof -
  have n: "length nonce = 20"
    using assms(3) by (rule length_randMsg)
  let ?bs = "magicHeader @ copy_into 10 (dedupe nd) @ nonce"
  have w: "net_Write (accepted ln raddr) ?bs = Inr (remote (accepted ln raddr) ?bs)"
    by (simp add: net_Write_def accepted_def)
  show ?thesis
  proof (cases "\<not> allowSelfConnection srv \<and> copy_into 10 (dedupe nd) = dedupe srv")
    case True
    have r: "remote (accepted ln raddr) ?bs = []"
      using listener_reply [OF assms(1) n, of raddr "dedupe nd"] True by simp
    have "verifyPeer net nd peer passphrase = (Inl EOF, nd1)"
      by (simp add: verifyPeer_def assms(2) newChallenge_Inr [OF assms(3)] put_Challenge_def
          w r ReadFull_def)
    with True show ?thesis by simp
  next
    case False
    have r: "remote (accepted ln raddr) ?bs =
               put_le16 (word_of_int appPort) @ hmac_sha256 key nonce"
      using listener_reply [OF assms(1) n, of raddr "dedupe nd"] False by auto
    have rf: "ReadFull 34 (remote (accepted ln raddr) ?bs) =
                Inr (put_le16 (word_of_int appPort) @ hmac_sha256 key nonce, [])"
      by (simp add: r ReadFull_response length_hmac_sha256)
    have gr: "get_Response (put_le16 (word_of_int appPort) @ hmac_sha256 key nonce) =
                \<lparr>Port = word_of_int appPort, MAC = hmac_sha256 key nonce\<rparr>"
      by (simp add: get_Response_wire length_hmac_sha256)
    have "verifyPeer net nd peer passphrase =
            (if hmac_sha256 key nonce \<noteq> hmac_sha256 passphrase nonce
             then (Inl InvalidChallengeResponse, nd1)
             else (case SplitHostPort peer of
                     Inl err \<Rightarrow> (Inl err, nd1)
                   | Inr (host, dialed) \<Rightarrow>
                       (Inr \<lparr>Addr = host @ '':'' @ itoa (unat (word_of_int appPort :: 16 word))\<rparr>,
                        nd1)))"
      by (simp only: verifyPeer_def assms(2) newChallenge_Inr [OF assms(3)] put_Challenge_def
          w rf gr checkMAC_def Let_def sum.case prod.case Challenge.select_convs
          Response.select_convs not_not)
    with False show ?thesis by auto
  qed
qed

lemma itoa_unfold:
  "itoa (numeral k) =
     (if numeral k < (10 :: nat) then [''0123456789'' ! numeral k]
      else itoa (numeral k div 10) @ [''0123456789'' ! (numeral k mod 10)])"
  by (subst itoa.simps) (rule refl)

lemma test_listener_started:
  "listenAuth test_env nd 40000 3000 passphrase = Inr (test_listener nd passphrase)"
  by (simp add: listenAuth_def test_env_def test_listener_def)

lemma test_net_dial:
  "test_net ln ''localhost:40000'' = Inr (accepted ln ''127.0.0.1:40000'')"
  by (simp add: test_net_def)

lemma test_node_randMsg:
  "randMsg test_node = (Inr (map of_nat [20..<40]), test_node\<lparr>entropy_pos := 40\<rparr>)"
  "randMsg test_node_allow = (Inr (map of_nat [20..<40]), test_node_allow\<lparr>entropy_pos := 40\<rparr>)"
  by (simp_all add: randMsg_def test_node_def test_node_allow_def Let_def)

lemma split_localhost: "SplitHostPort ''localhost:40000'' = Inr (''localhost'', ''40000'')"
  by (simp add: SplitHostPort_def)

lemma get_Response_take: "get_Response (take 34 bs) = get_Response bs"
  by (simp add: get_Response_def drop_take)

text \<open>Every successful \<^verbatim>\<open>verifyPeer\<close> went through all of its steps.\<close>

lemma verifyPeer_Inr:
  assumes "fst (verifyPeer net nd peer passphrase) = Inr p"
  shows "\<exists>conn nonce reply host dialed.
           net peer = Inr conn \<and> fst (randMsg nd) = Inr nonce
           \<and> net_Write conn (magicHeader @ copy_into 10 (dedupe nd) @ nonce) = Inr reply
           \<and> 34 \<le> length reply
           \<and> MAC (get_Response reply) = hmac_sha256 passphrase nonce
           \<and> SplitHostPort peer = Inr (host, dialed)
           \<and> Addr p = host @ '':'' @ itoa (unat (Port (get_Response reply)))"
proof -
  from assms obtain conn where conn: "net peer = Inr conn"
    by (cases "net peer") (simp_all add: verifyPeer_def)
  obtain r nd1 where rm: "randMsg nd = (r, nd1)"
    by (cases "randMsg nd")
  from assms conn rm obtain nonce where nonce: "r = Inr nonce"
    by (cases r) (simp_all add: verifyPeer_def newChallenge_def)
  note nc = newChallenge_Inr [OF rm [unfolded nonce]]
  let ?bs = "magicHeader @ copy_into 10 (dedupe nd) @ nonce"
  from assms conn obtain reply where reply: "net_Write conn ?bs = Inr reply"
    by (cases "net_Write conn ?bs") (simp_all add: verifyPeer_def nc put_Challenge_def)
  have len: "34 \<le> length reply"
  proof (rule ccontr)
    assume "\<not> 34 \<le> length reply"
    then have "\<exists>err. ReadFull 34 reply = Inl err"
      by (simp add: ReadFull_def)
    with assms conn reply show False
      by (auto simp add: verifyPeer_def nc put_Challenge_def)
  qed
  then have rf: "ReadFull 34 reply = Inr (take 34 reply, drop 34 reply)"
    by (simp add: ReadFull_def)
  have mac: "MAC (get_Response reply) = hmac_sha256 passphrase nonce"
  proof (rule ccontr)
    assume "MAC (get_Response reply) \<noteq> hmac_sha256 passphrase nonce"
    with assms conn reply rf show False
      by (simp add: verifyPeer_def nc put_Challenge_def get_Response_take checkMAC_def Let_def)
  qed
  from assms conn reply rf mac obtain host dialed
    where split: "SplitHostPort peer = Inr (host, dialed)"
    by (cases "SplitHostPort peer")
      (auto simp add: verifyPeer_def nc put_Challenge_def get_Response_take checkMAC_def Let_def)
  from assms conn reply rf mac split
  have "Addr p = host @ '':'' @ itoa (unat (Port (get_Response reply)))"
    by (auto simp add: verifyPeer_def nc put_Challenge_def get_Response_take checkMAC_def Let_def)
  with conn rm nonce reply len mac split show ?thesis
    by auto
qed

lemma test_roundtrip:
  "verifyPeer (test_net (test_listener test_node_allow (ascii ''secret''))) test_node_allow
     ''localhost:40000'' (ascii ''secret'') =
   (Inr \<lparr>Addr = ''localhost:3000''\<rparr>, test_node_allow\<lparr>entropy_pos := 40\<rparr>)"
proof -
  have a: "allowSelfConnection test_node_allow"
    by (simp add: test_node_allow_def)
  show ?thesis
    using verifyPeer_listener
      [where net = "test_net (test_listener test_node_allow (ascii ''secret''))"
         and peer = "''localhost:40000''" and passphrase = "ascii ''secret''",
       OF test_listener_started test_net_dial test_node_randMsg(2)]
    by (simp add: a split_localhost itoa_unfold)
qed

text \<open>A failing \<^verbatim>\<open>rand.Read\<close> ends \<^verbatim>\<open>verifyPeer\<close> with that error on any connection.\<close>

lemma verifyPeer_rand_fails:
  assumes "net peer = Inr conn" and "randMsg nd = (Inl err, nd1)"
  shows "verifyPeer net nd peer passphrase = (Inl err, nd1)"
  using assms by (simp add: verifyPeer_def newChallenge_Inl)

text \<open>
  C1 (round trip), as amended. Let a client run \<^verbatim>\<open>verifyPeer\<close> with the passphrase of a
  listener started by \<^verbatim>\<open>listenAuth\<close> with \<^verbatim>\<open>appPort\<close> in 1..65535, and let it dial that
  listener. If the client's \<^verbatim>\<open>rand.Read\<close> succeeds and yields the nonce, the dialed address
  has the form host:port that \<^verbatim>\<open>net.SplitHostPort\<close> accepts, and the listener's
  self-connection check does not fire (it is switched off, or the dedupe ID in the client's
  challenge is not the listener's own), then \<^verbatim>\<open>verifyPeer\<close> returns, with no error, the
  peer whose string form is that host, a colon, and \<^verbatim>\<open>appPort\<close> in decimal.
\<close>

theorem verifyPeer_roundtrip:
  assumes "listenAuth ev srv port appPort passphrase = Inr ln"
    and "net peer = Inr (accepted ln raddr)"
    and "randMsg nd = (Inr nonce, nd1)"
    and "allowSelfConnection srv \<or> copy_into 10 (dedupe nd) \<noteq> dedupe srv"
    and "SplitHostPort peer = Inr (host, dialed)"
    and "1 \<le> appPort" and "appPort \<le> 65535"
  shows "fst (verifyPeer net nd peer passphrase) = Inr \<lparr>Addr = host @ '':'' @ itoa (nat appPort)\<rparr>
         \<and> String \<lparr>Addr = host @ '':'' @ itoa (nat appPort)\<rparr> = host @ '':'' @ itoa (nat appPort)"
proof -
  from assms(6,7) have "unat (word_of_int appPort :: 16 word) = nat appPort"
    by (simp add: unat_word_of_int_16)
  with verifyPeer_listener [where net = net and peer = peer and passphrase = passphrase,
      OF assms(1,2,3)] assms(4,5) show ?thesis
    by (auto simp add: String_def)
qed

theorem verifyPeer_roundtrip_witness:
  "listenAuth test_env test_node_allow 40000 3000 (ascii ''secret'') =
     Inr (test_listener test_node_allow (ascii ''secret''))
   \<and> test_net (test_listener test_node_allow (ascii ''secret'')) ''localhost:40000'' =
     Inr (accepted (test_listener test_node_allow (ascii ''secret'')) ''127.0.0.1:40000'')
   \<and> randMsg test_node_allow = (Inr (map of_nat [20..<40]), test_node_allow\<lparr>entropy_pos := 40\<rparr>)
   \<and> allowSelfConnection test_node_allow
   \<and> SplitHostPort ''localhost:40000'' = Inr (''localhost'', ''40000'')
   \<and> fst (verifyPeer (test_net (test_listener test_node_allow (ascii ''secret''))) test_node_allow
        ''localhost:40000'' (ascii ''secret'')) = Inr \<lparr>Addr = ''localhost:3000''\<rparr>
   \<and> String \<lparr>Addr = ''localhost:3000''\<rparr> = ''localhost:3000''"
proof -
  have a: "allowSelfConnection test_node_allow"
    by (simp add: test_node_allow_def)
  then have d: "allowSelfConnection test_node_allow
      \<or> copy_into 10 (dedupe test_node_allow) \<noteq> dedupe test_node_allow"
    by simp
  have b: "(1 :: int) \<le> 3000" "(3000 :: int) \<le> 65535"
    by simp_all
  show ?thesis
    using verifyPeer_roundtrip
      [where net = "test_net (test_listener test_node_allow (ascii ''secret''))"
         and peer = "''localhost:40000''",
       OF test_listener_started test_net_dial test_node_randMsg(2) d split_localhost b]
      test_listener_started [of test_node_allow "ascii ''secret''"]
      test_net_dial [of "test_listener test_node_allow (ascii ''secret'')"]
      test_node_randMsg(2) a split_localhost
    by (simp add: itoa_unfold String_def)
qed

text \<open>
  The claim as stated fails when the client runs in the listener's own process with the
  self-connection check in force, as in \<^verbatim>\<open>TestAuth\<close> without its first line: the listener
  drops the connection and \<^verbatim>\<open>verifyPeer\<close> returns the read error.
\<close>

theorem verifyPeer_roundtrip_counterexample:
  "listenAuth test_env test_node 40000 3000 (ascii ''secret'') =
     Inr (test_listener test_node (ascii ''secret''))
   \<and> test_net (test_listener test_node (ascii ''secret'')) ''localhost:40000'' =
     Inr (accepted (test_listener test_node (ascii ''secret'')) ''127.0.0.1:40000'')
   \<and> (1 :: int) \<le> 3000 \<and> (3000 :: int) \<le> 65535
   \<and> fst (verifyPeer (test_net (test_listener test_node (ascii ''secret''))) test_node
        ''localhost:40000'' (ascii ''secret'')) = Inl EOF"
proof -
  have d: "\<not> allowSelfConnection test_node \<and> copy_into 10 (dedupe test_node) = dedupe test_node"
    by (simp add: test_node_def copy_into_def)
  show ?thesis
    using verifyPeer_listener
      [where net = "test_net (test_listener test_node (ascii ''secret''))"
         and peer = "''localhost:40000''" and passphrase = "ascii ''secret''",
       OF test_listener_started test_net_dial test_node_randMsg(1)] d
      test_listener_started [of test_node "ascii ''secret''"]
      test_net_dial [of "test_listener test_node (ascii ''secret'')"]
    by simp
qed

text \<open>
  C9 (where the peer's host and port come from), as amended. For every successful
  \<^verbatim>\<open>verifyPeer\<close> call the host component of the returned peer is the host part of the
  address string that was dialed, as \<^verbatim>\<open>net.SplitHostPort\<close> splits it, and the port
  component is the \<^verbatim>\<open>Port\<close> field of the response read from the connection, not the port
  that was dialed.
\<close>

theorem verifyPeer_host_and_port:
  assumes "fst (verifyPeer net nd peer passphrase) = Inr p"
  shows "\<exists>host dialed conn nonce reply.
           SplitHostPort peer = Inr (host, dialed)
           \<and> net peer = Inr conn \<and> fst (randMsg nd) = Inr nonce
           \<and> net_Write conn (magicHeader @ copy_into 10 (dedupe nd) @ nonce) = Inr reply
           \<and> Addr p = host @ '':'' @ itoa (unat (Port (get_Response reply)))"
  using verifyPeer_Inr [OF assms] by blast

theorem verifyPeer_host_and_port_witness:
  "fst (verifyPeer (test_net (test_listener test_node_allow (ascii ''secret''))) test_node_allow
     ''localhost:40000'' (ascii ''secret'')) = Inr \<lparr>Addr = ''localhost:3000''\<rparr>
   \<and> (\<exists>host dialed conn nonce reply.
         SplitHostPort ''localhost:40000'' = Inr (host, dialed)
         \<and> test_net (test_listener test_node_allow (ascii ''secret'')) ''localhost:40000'' = Inr conn
         \<and> fst (randMsg test_node_allow) = Inr nonce
         \<and> net_Write conn (magicHeader @ copy_into 10 (dedupe test_node_allow) @ nonce) = Inr reply
         \<and> ''localhost:3000'' = host @ '':'' @ itoa (unat (Port (get_Response reply))))"
proof -
  have r: "fst (verifyPeer (test_net (test_listener test_node_allow (ascii ''secret'')))
      test_node_allow ''localhost:40000'' (ascii ''secret'')) = Inr \<lparr>Addr = ''localhost:3000''\<rparr>"
    by (simp add: test_roundtrip)
  show ?thesis
    using verifyPeer_host_and_port [OF r] r by simp
qed

text \<open>
  The claim as stated, with the remote address of the connection as the host, fails in
  \<^verbatim>\<open>TestAuth\<close>: the connection dialed as \<^verbatim>\<open>localhost:40000\<close> has the remote address
  \<^verbatim>\<open>127.0.0.1:40000\<close>, and the peer returned is \<^verbatim>\<open>localhost:3000\<close>.
\<close>

theorem verifyPeer_host_counterexample:
  "test_net (test_listener test_node_allow (ascii ''secret'')) ''localhost:40000'' =
     Inr (accepted (test_listener test_node_allow (ascii ''secret'')) ''127.0.0.1:40000'')
   \<and> RemoteAddr (accepted (test_listener test_node_allow (ascii ''secret'')) ''127.0.0.1:40000'') =
     ''127.0.0.1:40000''
   \<and> SplitHostPort ''127.0.0.1:40000'' = Inr (''127.0.0.1'', ''40000'')
   \<and> fst (verifyPeer (test_net (test_listener test_node_allow (ascii ''secret''))) test_node_allow
        ''localhost:40000'' (ascii ''secret'')) = Inr \<lparr>Addr = ''localhost:3000''\<rparr>
   \<and> SplitHostPort ''localhost:3000'' = Inr (''localhost'', ''3000'')
   \<and> ''localhost'' \<noteq> ''127.0.0.1''"
  by (simp add: test_roundtrip test_net_dial accepted_def SplitHostPort_def)

section \<open>What reaches the output channel\<close>

lemma checkPeer_snd:
  "snd (checkPeer net addr passphrase (nd, c)) =
     (case fst (verifyPeer net nd addr passphrase) of Inr peer \<Rightarrow> c @ [peer] | Inl err \<Rightarrow> c)"
  by (simp add: checkPeer_def split: prod.splits sum.splits)

lemma foldl_concat: "foldl f a (concat xss) = foldl (foldl f) a xss"
  by (induction xss arbitrary: a) simp_all

lemma obtainPeers_candidates:
  "obtainPeers dec net results passphrase st =
     foldl (\<lambda>st a. checkPeer net a passphrase st) st (candidates dec results)"
  by (simp add: obtainPeers_def candidates_def foldl_map foldl_concat)

lemma foldl_invariant:
  assumes "Q st" and "\<And>st x. x \<in> set xs \<Longrightarrow> Q st \<Longrightarrow> Q (f st x)"
  shows "Q (foldl f st xs)"
  using assms by (induction xs arbitrary: st) simp_all

lemma obtainPeers_sent:
  assumes "peer \<in> set (snd (obtainPeers dec net results passphrase (nd, c)))"
  shows "peer \<in> set c
         \<or> (\<exists>nd' x. x \<in> set (candidates dec results)
               \<and> fst (verifyPeer net nd' x passphrase) = Inr peer)"
proof -
  let ?Q = "\<lambda>st. \<forall>p \<in> set (snd st). p \<in> set c
              \<or> (\<exists>nd' x. x \<in> set (candidates dec results)
                    \<and> fst (verifyPeer net nd' x passphrase) = Inr p)"
  have "?Q (foldl (\<lambda>st a. checkPeer net a passphrase st) (nd, c) (candidates dec results))"
  proof (rule foldl_invariant)
    show "?Q (nd, c)" by simp
  next
    fix st :: "node \<times> Peer list" and x
    assume x: "x \<in> set (candidates dec results)" and q: "?Q st"
    obtain nd0 c0 where st: "st = (nd0, c0)" by (cases st)
    show "?Q (checkPeer net x passphrase st)"
    proof (cases "fst (verifyPeer net nd0 x passphrase)")
      case (Inl err)
      with q st show ?thesis by (simp add: checkPeer_snd)
    next
      case (Inr p)
      with q st x show ?thesis by (auto simp add: checkPeer_snd)
    qed
  qed
  with assms show ?thesis
    by (simp add: obtainPeers_candidates)
qed

text \<open>
  C5 (emission invariant). \<^verbatim>\<open>checkPeer\<close> sends a peer on the channel exactly when
  \<^verbatim>\<open>verifyPeer\<close> returned it with a nil error; that requires the MAC of the response read
  on the connection to be HMAC-SHA256 of the passphrase over the nonce of the challenge
  just written on that connection; and every peer that \<^verbatim>\<open>obtainPeers\<close>, the only caller,
  adds to the channel was returned by a \<^verbatim>\<open>verifyPeer\<close> call on one of the candidates.
\<close>

theorem checkPeer_sends_only_verified:
  "snd (checkPeer net addr passphrase (nd, c)) =
     (case fst (verifyPeer net nd addr passphrase) of Inr peer \<Rightarrow> c @ [peer] | Inl err \<Rightarrow> c)
   \<and> (\<forall>peer. fst (verifyPeer net nd addr passphrase) = Inr peer \<longrightarrow>
         (\<exists>conn nonce reply.
            net addr = Inr conn \<and> fst (randMsg nd) = Inr nonce
            \<and> net_Write conn (magicHeader @ copy_into 10 (dedupe nd) @ nonce) = Inr reply
            \<and> MAC (get_Response reply) = hmac_sha256 passphrase nonce))
   \<and> (\<forall>peer \<in> set (snd (obtainPeers dec net results passphrase (nd, c))).
         peer \<in> set c
         \<or> (\<exists>nd' x. x \<in> set (candidates dec results)
               \<and> fst (verifyPeer net nd' x passphrase) = Inr peer))"
proof (intro conjI allI impI ballI)
  show "snd (checkPeer net addr passphrase (nd, c)) =
     (case fst (verifyPeer net nd addr passphrase) of Inr peer \<Rightarrow> c @ [peer] | Inl err \<Rightarrow> c)"
    by (rule checkPeer_snd)
next
  fix peer
  assume "fst (verifyPeer net nd addr passphrase) = Inr peer"
  from verifyPeer_Inr [OF this]
  show "\<exists>conn nonce reply.
            net addr = Inr conn \<and> fst (randMsg nd) = Inr nonce
            \<and> net_Write conn (magicHeader @ copy_into 10 (dedupe nd) @ nonce) = Inr reply
            \<and> MAC (get_Response reply) = hmac_sha256 passphrase nonce"
    by blast
next
  fix peer
  assume "peer \<in> set (snd (obtainPeers dec net results passphrase (nd, c)))"
  then show "peer \<in> set c
         \<or> (\<exists>nd' x. x \<in> set (candidates dec results)
               \<and> fst (verifyPeer net nd' x passphrase) = Inr peer)"
    by (rule obtainPeers_sent)
qed

theorem checkPeer_sends_only_verified_witness:
  "fst (verifyPeer (test_net (test_listener test_node_allow (ascii ''secret''))) test_node_allow
     ''localhost:40000'' (ascii ''secret'')) = Inr \<lparr>Addr = ''localhost:3000''\<rparr>
   \<and> snd (checkPeer (test_net (test_listener test_node_allow (ascii ''secret'')))
        ''localhost:40000'' (ascii ''secret'') (test_node_allow, [])) = [\<lparr>Addr = ''localhost:3000''\<rparr>]
   \<and> (\<exists>conn nonce reply.
         test_net (test_listener test_node_allow (ascii ''secret'')) ''localhost:40000'' = Inr conn
         \<and> fst (randMsg test_node_allow) = Inr nonce
         \<and> net_Write conn (magicHeader @ copy_into 10 (dedupe test_node_allow) @ nonce) = Inr reply
         \<and> MAC (get_Response reply) = hmac_sha256 (ascii ''secret'') nonce)
   \<and> snd (obtainPeers test_decode (test_net (test_listener test_node_allow (ascii ''secret'')))
        test_results (ascii ''secret'') (test_node_allow, [])) = [\<lparr>Addr = ''localhost:3000''\<rparr>]
   \<and> (\<exists>nd' x. x \<in> set (candidates test_decode test_results)
         \<and> fst (verifyPeer (test_net (test_listener test_node_allow (ascii ''secret''))) nd' x
              (ascii ''secret'')) = Inr \<lparr>Addr = ''localhost:3000''\<rparr>)"
proof -
  let ?net = "test_net (test_listener test_node_allow (ascii ''secret''))"
  have r: "fst (verifyPeer ?net test_node_allow ''localhost:40000'' (ascii ''secret'')) =
      Inr \<lparr>Addr = ''localhost:3000''\<rparr>"
    by (simp add: test_roundtrip)
  have o: "snd (obtainPeers test_decode ?net test_results (ascii ''secret'') (test_node_allow, [])) =
      [\<lparr>Addr = ''localhost:3000''\<rparr>]"
    by (simp add: obtainPeers_def test_results_def test_decode_def checkPeer_def test_roundtrip)
  show ?thesis
    using checkPeer_sends_only_verified [of ?net "''localhost:40000''" "ascii ''secret''"
        test_node_allow "[]" test_decode test_results] r o
    by simp
qed

section \<open>The driver\<close>

lemma infoHash_Inr: "infoHash passphrase = Inr (sha1 (take 16 (sha256 passphrase)))"
  by (simp add: infoHash_def)

lemma request_loop_events:
  "request_loop n ih s =
     Running (s\<lparr>events := events s @ concat (replicate n [PeersRequest ih True, Sleep 5])\<rparr>)"
  by (induction n arbitrary: s) (simp_all add: emit_def)

lemma count_list_append: "count_list (xs @ ys) x = count_list xs x + count_list ys x"
  by (induction xs) simp_all

lemma count_requests:
  "count_list (concat (replicate n [PeersRequest ih True, Sleep 5])) (PeersRequest ih True) = n"
  by (induction n) simp_all

lemma driver_listen_fails:
  assumes "0 < appPort" and "ListenTCP ev port = Inl err"
  shows "FindAuthenticatedPeers ev nd port appPort minPeers passphrase n =
           Returned \<lparr>events = [], chan_closed = True\<rparr>"
  using assms
  by (simp add: FindAuthenticatedPeers_def findAuthenticatedPeers_def run_driver_def
      infoHash_Inr listenAuth_def)

lemma driver_dht_fails_announcing:
  assumes "0 < appPort" and "ListenTCP ev port = Inr addr"
    and "NewDHTNode ev port minPeers True = Some err"
  shows "FindAuthenticatedPeers ev nd port appPort minPeers passphrase n =
           Returned \<lparr>events = [Listening addr appPort], chan_closed = True\<rparr>"
  using assms
  by (simp add: FindAuthenticatedPeers_def findAuthenticatedPeers_def run_driver_def
      infoHash_Inr listenAuth_def emit_def)

lemma driver_runs_announcing:
  assumes "0 < appPort" and "ListenTCP ev port = Inr addr"
    and "NewDHTNode ev port minPeers True = None"
  shows "FindAuthenticatedPeers ev nd port appPort minPeers passphrase n =
           Running \<lparr>events = [Listening addr appPort, DHTNode port minPeers True,
                               AddNode ''213.239.195.138:40000'', GoDoDHT, GoObtainPeers]
                              @ concat (replicate n
                                  [PeersRequest (sha1 (take 16 (sha256 passphrase))) True, Sleep 5]),
                     chan_closed = False\<rparr>"
  using assms
  by (simp add: FindAuthenticatedPeers_def findAuthenticatedPeers_def run_driver_def
      infoHash_Inr listenAuth_def emit_def request_loop_events)

lemma driver_dht_fails_client:
  assumes "appPort \<le> 0" and "NewDHTNode ev port minPeers False = Some err"
  shows "FindAuthenticatedPeers ev nd port appPort minPeers passphrase n =
           Returned \<lparr>events = [], chan_closed = True\<rparr>"
  using assms
  by (simp add: FindAuthenticatedPeers_def findAuthenticatedPeers_def run_driver_def
      infoHash_Inr)

lemma driver_runs_client:
  assumes "appPort \<le> 0" and "NewDHTNode ev port minPeers False = None"
  shows "FindAuthenticatedPeers ev nd port appPort minPeers passphrase n =
           Running \<lparr>events = [DHTNode port minPeers False,
                               AddNode ''213.239.195.138:40000'', GoDoDHT, GoObtainPeers]
                              @ concat (replicate n
                                  [PeersRequest (sha1 (take 16 (sha256 passphrase))) True, Sleep 5]),
                     chan_closed = False\<rparr>"
  using assms
  by (simp add: FindAuthenticatedPeers_def findAuthenticatedPeers_def run_driver_def
      infoHash_Inr emit_def request_loop_events)

lemma no_listening_in_requests:
  "Listening a p \<notin> set (concat (replicate n [PeersRequest ih True, Sleep 5]))"
  by (induction n) simp_all

lemma no_dhtnode_in_requests:
  "DHTNode a b c \<notin> set (concat (replicate n [PeersRequest ih True, Sleep 5]))"
  by (induction n) simp_all

text \<open>
  C8 (the channel closes only on a startup failure). However many iterations of the request
  loop are observed: the driver has returned exactly when startup failed (an infohash
  error, a listener bind error with \<^verbatim>\<open>appPort > 0\<close>, or a DHT creation error), and the
  channel is closed exactly when the driver has returned; otherwise the driver is in the
  request loop, having issued one request per iteration, with the channel open. With
  \<^verbatim>\<open>appPort \<le> 0\<close> no listener is started and the DHT node is created with announce false.
\<close>

theorem findAuthenticatedPeers_closure:
  "(is_Returned (FindAuthenticatedPeers ev nd port appPort minPeers passphrase n) \<longleftrightarrow>
      (\<exists>err. infoHash passphrase = Inl err)
      \<or> (0 < appPort \<and> (\<exists>err. ListenTCP ev port = Inl err))
      \<or> (\<exists>err. NewDHTNode ev port minPeers (0 < appPort) = Some err))
   \<and> (chan_closed (state (FindAuthenticatedPeers ev nd port appPort minPeers passphrase n)) \<longleftrightarrow>
      is_Returned (FindAuthenticatedPeers ev nd port appPort minPeers passphrase n))
   \<and> (\<not> is_Returned (FindAuthenticatedPeers ev nd port appPort minPeers passphrase n) \<longrightarrow>
      count_list (events (state (FindAuthenticatedPeers ev nd port appPort minPeers passphrase n)))
        (PeersRequest (sha1 (take 16 (sha256 passphrase))) True) = n)
   \<and> (appPort \<le> 0 \<longrightarrow>
      (\<forall>addr p. Listening addr p
         \<notin> set (events (state (FindAuthenticatedPeers ev nd port appPort minPeers passphrase n))))
      \<and> DHTNode port minPeers True
         \<notin> set (events (state (FindAuthenticatedPeers ev nd port appPort minPeers passphrase n)))
      \<and> (\<not> is_Returned (FindAuthenticatedPeers ev nd port appPort minPeers passphrase n) \<longrightarrow>
         DHTNode port minPeers False
           \<in> set (events (state (FindAuthenticatedPeers ev nd port appPort minPeers passphrase n)))))"
proof (cases "0 < appPort")
  case True
  show ?thesis
  proof (cases "ListenTCP ev port")
    case (Inl err)
    with True show ?thesis
      by (simp add: driver_listen_fails [OF True Inl] infoHash_Inr)
  next
    case (Inr addr)
    show ?thesis
    proof (cases "NewDHTNode ev port minPeers True")
      case None
      with True Inr show ?thesis
        by (simp add: driver_runs_announcing [OF True Inr None] infoHash_Inr count_list_append
            count_requests)
    next
      case (Some err)
      with True Inr show ?thesis
        by (simp add: driver_dht_fails_announcing [OF True Inr Some] infoHash_Inr)
    qed
  qed
next
  case False
  then have le: "appPort \<le> 0" by simp
  show ?thesis
  proof (cases "NewDHTNode ev port minPeers False")
    case None
    with False show ?thesis
      by (simp add: driver_runs_client [OF le None] infoHash_Inr count_list_append
          count_requests no_listening_in_requests no_dhtnode_in_requests)
  next
    case (Some err)
    with False show ?thesis
      by (simp add: driver_dht_fails_client [OF le Some] infoHash_Inr)
  qed
qed

theorem findAuthenticatedPeers_closure_witness:
  "ListenTCP test_env_nobind 40000 = Inl ListenError
   \<and> is_Returned (FindAuthenticatedPeers test_env_nobind test_node 40000 3000 1 (ascii ''secret'') 2)
   \<and> chan_closed (state
        (FindAuthenticatedPeers test_env_nobind test_node 40000 3000 1 (ascii ''secret'') 2))
   \<and> NewDHTNode test_env 40000 1 False = None
   \<and> \<not> is_Returned (FindAuthenticatedPeers test_env test_node 40000 0 1 (ascii ''secret'') 2)
   \<and> \<not> chan_closed (state (FindAuthenticatedPeers test_env test_node 40000 0 1 (ascii ''secret'') 2))
   \<and> count_list
        (events (state (FindAuthenticatedPeers test_env test_node 40000 0 1 (ascii ''secret'') 2)))
        (PeersRequest (sha1 (take 16 (sha256 (ascii ''secret'')))) True) = 2
   \<and> (\<forall>addr p. Listening addr p
        \<notin> set (events (state
              (FindAuthenticatedPeers test_env test_node 40000 0 1 (ascii ''secret'') 2))))
   \<and> DHTNode 40000 1 False
        \<in> set (events (state
              (FindAuthenticatedPeers test_env test_node 40000 0 1 (ascii ''secret'') 2)))"
proof -
  have a: "ListenTCP test_env_nobind 40000 = Inl ListenError"
    by (simp add: test_env_nobind_def)
  have b: "NewDHTNode test_env 40000 1 False = None"
    "NewDHTNode test_env 40000 1 (0 < (0 :: int)) = None"
    by (simp_all add: test_env_def)
  have c: "\<not> (\<exists>err. infoHash (ascii ''secret'') = Inl err)"
    by (simp add: infoHash_Inr)
  show ?thesis
    using findAuthenticatedPeers_closure
        [of test_env_nobind test_node 40000 3000 1 "ascii ''secret''" 2]
      findAuthenticatedPeers_closure [of test_env test_node 40000 0 1 "ascii ''secret''" 2]
      a b c
    by simp
qed

section \<open>A client with another passphrase\<close>

text \<open>
  C2 (auth soundness), as amended. Let \<^verbatim>\<open>verifyPeer\<close> run with passphrase \<open>p1\<close> and dial a
  listener started by \<^verbatim>\<open>listenAuth\<close> with passphrase \<open>p2\<close>, let the client's \<^verbatim>\<open>rand.Read\<close>
  succeed and yield the nonce, and let HMAC-SHA256 keyed by \<open>p1\<close> and by \<open>p2\<close> over that
  nonce differ. Then \<^verbatim>\<open>verifyPeer\<close> returns an error and never a peer. The error is the MAC
  mismatch when the listener answered the challenge; when the listener's self-connection
  check fired (the check in force and the client's dedupe ID the listener's own), the
  listener closed without answering and the error is the read error \<^verbatim>\<open>EOF\<close>.
\<close>

theorem verifyPeer_wrong_passphrase:
  assumes "listenAuth ev srv port appPort p2 = Inr ln"
    and "net peer = Inr (accepted ln raddr)"
    and "randMsg nd = (Inr nonce, nd1)"
    and "hmac_sha256 p1 nonce \<noteq> hmac_sha256 p2 nonce"
  shows "fst (verifyPeer net nd peer p1) =
           Inl (if \<not> allowSelfConnection srv \<and> copy_into 10 (dedupe nd) = dedupe srv
                then EOF else InvalidChallengeResponse)
         \<and> (\<forall>p. fst (verifyPeer net nd peer p1) \<noteq> Inr p)"
proof -
  from assms(4) have "hmac_sha256 p2 nonce \<noteq> hmac_sha256 p1 nonce"
    by simp
  with verifyPeer_listener [where net = net and peer = peer and passphrase = p1,
      OF assms(1,2,3)]
  show ?thesis by simp
qed

section \<open>Evaluating the hash functions\<close>

lemma sched256_steps: "sched256 ws = foldl sched256_step ws [16..<64]"
  unfolding sched256_def
  by (rule arg_cong [where f = "\<lambda>f. foldl f ws [16..<64]"])
    (simp add: fun_eq_iff sched256_step_def)

lemma sched1_steps: "sched1 ws = foldl sched1_step ws [16..<80]"
  unfolding sched1_def
  by (rule arg_cong [where f = "\<lambda>f. foldl f ws [16..<80]"])
    (simp add: fun_eq_iff sched1_step_def)

lemmas sha_eval =
  add32_def shr_def rotr_def rotl_def not32_def K256_def ch_def maj_def
  bsig0_def bsig1_def ssig0_def ssig1_def sched256_steps sched256_step_def
  round256_def block256_def sched1_steps sched1_step_def f1_def k1_def block1_def

lemmas pad_eval =
  md_pad_def put_be64_def put_be32_def replicate_numeral

lemma upt_0_80: "[0..<80] = 0 # 1 # [2..<80]"
  by (simp add: upt_conv_Cons)

lemma xor_byte_numeral:
  "(numeral a :: byte) XOR numeral b = of_nat (numeral a XOR numeral b)"
  by (simp add: of_nat_xor_eq)

lemma ascii_aaaaa: "ascii ''aaaaa'' = [97, 97, 97, 97, 97]"
  by (simp add: ascii_def)

lemma sha256_aaaaa_blocks:
  "chunks 64 (md_pad
     [97, 97, 97, 97, 97]) =
     [[97, 97, 97, 97, 97, 128, 0, 0, 0, 0, 0, 0, 0, 0, 0, 0, 0, 0, 0, 0, 0, 0, 0, 0,
       0, 0, 0, 0, 0, 0, 0, 0, 0, 0, 0, 0, 0, 0, 0, 0, 0, 0, 0, 0, 0, 0, 0, 0, 0, 0, 0,
       0, 0, 0, 0, 0, 0, 0, 0, 0, 0, 0, 0, 40]]"
  by (simp add: pad_eval)

lemma sha256_aaaaa_block0:
  "block256 init256
     [97, 97, 97, 97, 97, 128, 0, 0, 0, 0, 0, 0, 0, 0, 0, 0, 0, 0, 0, 0, 0, 0, 0, 0, 0,
      0, 0, 0, 0, 0, 0, 0, 0, 0, 0, 0, 0, 0, 0, 0, 0, 0, 0, 0, 0, 0, 0, 0, 0, 0, 0, 0,
      0, 0, 0, 0, 0, 0, 0, 0, 0, 0, 0, 40] =
     (3986067076, 219206355, 329806012, 320491052,
     824015568, 2615095987, 1098991394, 525444834)"
  by (simp add: init256_def sha_eval)

lemma sha256_aaaaa_sum:
  "sha256
     [97, 97, 97, 97, 97] =
     [237, 150, 142, 132, 13, 16, 210, 211, 19, 168, 112, 188, 19, 26, 78, 44, 49, 29,
      122, 208, 155, 223, 50, 179, 65, 129, 71, 34, 31, 81, 166, 226]"
  by (simp add: sha256_def sha256_aaaaa_blocks sha256_aaaaa_block0 put_be32_def)

lemma sha1_half_blocks:
  "chunks 64 (md_pad
     [237, 150, 142, 132, 13, 16, 210, 211, 19, 168, 112, 188, 19, 26, 78, 44]) =
     [[237, 150, 142, 132, 13, 16, 210, 211, 19, 168, 112, 188, 19, 26, 78, 44, 128, 0,
       0, 0, 0, 0, 0, 0, 0, 0, 0, 0, 0, 0, 0, 0, 0, 0, 0, 0, 0, 0, 0, 0, 0, 0, 0, 0, 0,
       0, 0, 0, 0, 0, 0, 0, 0, 0, 0, 0, 0, 0, 0, 0, 0, 0, 0, 128]]"
  by (simp add: pad_eval)

lemma sha1_half_block0:
  "block1 init1
     [237, 150, 142, 132, 13, 16, 210, 211, 19, 168, 112, 188, 19, 26, 78, 44, 128, 0,
      0, 0, 0, 0, 0, 0, 0, 0, 0, 0, 0, 0, 0, 0, 0, 0, 0, 0, 0, 0, 0, 0, 0, 0, 0, 0, 0,
      0, 0, 0, 0, 0, 0, 0, 0, 0, 0, 0, 0, 0, 0, 0, 0, 0, 0, 128] =
     (2535488660, 937849519, 2383884790, 2803894904, 1647871722)"
  by (simp add: init1_def sha_eval upt_0_80)

lemma sha1_half_sum:
  "sha1
     [237, 150, 142, 132, 13, 16, 210, 211, 19, 168, 112, 188, 19, 26, 78, 44] =
     [151, 32, 124, 148, 55, 230, 114, 175, 142, 23, 49, 246, 167, 32, 10, 120, 98, 56,
      134, 234]"
  by (simp add: sha1_def sha1_half_blocks sha1_half_block0 put_be32_def)

text \<open>
  C3 (infohash derivation). For every passphrase \<open>p\<close>, \<^verbatim>\<open>infoHash\<close> returns, with no error,
  SHA-1 of the first 16 bytes of SHA-256 of \<open>p\<close>, 20 bytes; the result is a function of
  \<open>p\<close> alone, so equal passphrases give equal infohashes; and the infohash of the five
  letters a is 97207c9437e672af8e1731f6a7200a78623886ea.
\<close>

theorem infoHash_derivation:
  "infoHash p = Inr (sha1 (take 16 (sha256 p)))
   \<and> length (take 16 (sha256 p)) = 16
   \<and> length (sha1 (take 16 (sha256 p))) = 20
   \<and> infoHash (ascii ''aaaaa'') =
       Inr [0x97, 0x20, 0x7c, 0x94, 0x37, 0xe6, 0x72, 0xaf, 0x8e, 0x17,
            0x31, 0xf6, 0xa7, 0x20, 0x0a, 0x78, 0x62, 0x38, 0x86, 0xea]"
  by (simp add: infoHash_Inr length_sha256 length_sha1 ascii_aaaaa sha256_aaaaa_sum
      sha1_half_sum)

lemma test_nonce: "map of_nat [20..<40] =
     ([20, 21, 22, 23, 24, 25, 26, 27, 28, 29, 30, 31, 32, 33, 34, 35, 36, 37, 38, 39] :: byte list)"
  by simp

lemma hmac_someotherpass_key:
  "hmac_key (ascii ''someotherpass'') =
     [115, 111, 109, 101, 111, 116, 104, 101, 114, 112, 97, 115, 115, 0, 0, 0, 0, 0, 0,
      0, 0, 0, 0, 0, 0, 0, 0, 0, 0, 0, 0, 0, 0, 0, 0, 0, 0, 0, 0, 0, 0, 0, 0, 0, 0, 0,
      0, 0, 0, 0, 0, 0, 0, 0, 0, 0, 0, 0, 0, 0, 0, 0, 0, 0]"
  by (simp add: hmac_key_def copy_into_def ascii_def replicate_numeral)

lemma hmac_someotherpass_inner_blocks:
  "chunks 64 (md_pad
     [69, 89, 91, 83, 89, 66, 94, 83, 68, 70, 87, 69, 69, 54, 54, 54, 54, 54, 54, 54,
      54, 54, 54, 54, 54, 54, 54, 54, 54, 54, 54, 54, 54, 54, 54, 54, 54, 54, 54, 54,
      54, 54, 54, 54, 54, 54, 54, 54, 54, 54, 54, 54, 54, 54, 54, 54, 54, 54, 54, 54,
      54, 54, 54, 54, 20, 21, 22, 23, 24, 25, 26, 27, 28, 29, 30, 31, 32, 33, 34, 35,
      36, 37, 38, 39]) =
     [[69, 89, 91, 83, 89, 66, 94, 83, 68, 70, 87, 69, 69, 54, 54, 54, 54, 54, 54, 54,
       54, 54, 54, 54, 54, 54, 54, 54, 54, 54, 54, 54, 54, 54, 54, 54, 54, 54, 54, 54,
       54, 54, 54, 54, 54, 54, 54, 54, 54, 54, 54, 54, 54, 54, 54, 54, 54, 54, 54, 54,
       54, 54, 54, 54],
      [20, 21, 22, 23, 24, 25, 26, 27, 28, 29, 30, 31, 32, 33, 34, 35, 36, 37, 38, 39,
       128, 0, 0, 0, 0, 0, 0, 0, 0, 0, 0, 0, 0, 0, 0, 0, 0, 0, 0, 0, 0, 0, 0, 0, 0, 0,
       0, 0, 0, 0, 0, 0, 0, 0, 0, 0, 0, 0, 0, 0, 0, 0, 2, 160]]"
  by (simp add: pad_eval)

lemma hmac_someotherpass_inner_block0:
  "block256 init256
     [69, 89, 91, 83, 89, 66, 94, 83, 68, 70, 87, 69, 69, 54, 54, 54, 54, 54, 54, 54,
      54, 54, 54, 54, 54, 54, 54, 54, 54, 54, 54, 54, 54, 54, 54, 54, 54, 54, 54, 54,
      54, 54, 54, 54, 54, 54, 54, 54, 54, 54, 54, 54, 54, 54, 54, 54, 54, 54, 54, 54,
      54, 54, 54, 54] =
     (2867301034, 575172032, 3356008313, 3349546101,
     963530013, 3794243114, 3758853988, 2592878915)"
  by (simp add: init256_def sha_eval)

lemma hmac_someotherpass_inner_block1:
  "block256 
     (2867301034, 575172032, 3356008313, 3349546101,
     963530013, 3794243114, 3758853988, 2592878915)
     [20, 21, 22, 23, 24, 25, 26, 27, 28, 29, 30, 31, 32, 33, 34, 35, 36, 37, 38, 39,
      128, 0, 0, 0, 0, 0, 0, 0, 0, 0, 0, 0, 0, 0, 0, 0, 0, 0, 0, 0, 0, 0, 0, 0, 0, 0,
      0, 0, 0, 0, 0, 0, 0, 0, 0, 0, 0, 0, 0, 0, 0, 0, 2, 160] =
     (498553955, 415471030, 3406314149, 1629875573,
     4050103108, 1975578447, 1356779280, 3575217572)"
  by (simp add: init256_def sha_eval)

lemma hmac_someotherpass_inner_sum:
  "sha256
     [69, 89, 91, 83, 89, 66, 94, 83, 68, 70, 87, 69, 69, 54, 54, 54, 54, 54, 54, 54,
      54, 54, 54, 54, 54, 54, 54, 54, 54, 54, 54, 54, 54, 54, 54, 54, 54, 54, 54, 54,
      54, 54, 54, 54, 54, 54, 54, 54, 54, 54, 54, 54, 54, 54, 54, 54, 54, 54, 54, 54,
      54, 54, 54, 54, 20, 21, 22, 23, 24, 25, 26, 27, 28, 29, 30, 31, 32, 33, 34, 35,
      36, 37, 38, 39] =
     [29, 183, 84, 99, 24, 195, 149, 182, 203, 8, 58, 165, 97, 37, 237, 117, 241, 103,
      171, 68, 117, 192, 239, 79, 80, 222, 207, 16, 213, 25, 125, 164]"
  by (simp add: sha256_def hmac_someotherpass_inner_blocks hmac_someotherpass_inner_block0 hmac_someotherpass_inner_block1 put_be32_def)

lemma hmac_someotherpass_outer_blocks:
  "chunks 64 (md_pad
     [47, 51, 49, 57, 51, 40, 52, 57, 46, 44, 61, 47, 47, 92, 92, 92, 92, 92, 92, 92,
      92, 92, 92, 92, 92, 92, 92, 92, 92, 92, 92, 92, 92, 92, 92, 92, 92, 92, 92, 92,
      92, 92, 92, 92, 92, 92, 92, 92, 92, 92, 92, 92, 92, 92, 92, 92, 92, 92, 92, 92,
      92, 92, 92, 92, 29, 183, 84, 99, 24, 195, 149, 182, 203, 8, 58, 165, 97, 37, 237,
      117, 241, 103, 171, 68, 117, 192, 239, 79, 80, 222, 207, 16, 213, 25, 125, 164]) =
     [[47, 51, 49, 57, 51, 40, 52, 57, 46, 44, 61, 47, 47, 92, 92, 92, 92, 92, 92, 92,
       92, 92, 92, 92, 92, 92, 92, 92, 92, 92, 92, 92, 92, 92, 92, 92, 92, 92, 92, 92,
       92, 92, 92, 92, 92, 92, 92, 92, 92, 92, 92, 92, 92, 92, 92, 92, 92, 92, 92, 92,
       92, 92, 92, 92],
      [29, 183, 84, 99, 24, 195, 149, 182, 203, 8, 58, 165, 97, 37, 237, 117, 241, 103,
       171, 68, 117, 192, 239, 79, 80, 222, 207, 16, 213, 25, 125, 164, 128, 0, 0, 0,
       0, 0, 0, 0, 0, 0, 0, 0, 0, 0, 0, 0, 0, 0, 0, 0, 0, 0, 0, 0, 0, 0, 0, 0, 0, 0, 3,
       0]]"
  by (simp add: pad_eval)

lemma hmac_someotherpass_outer_block0:
  "block256 init256
     [47, 51, 49, 57, 51, 40, 52, 57, 46, 44, 61, 47, 47, 92, 92, 92, 92, 92, 92, 92,
      92, 92, 92, 92, 92, 92, 92, 92, 92, 92, 92, 92, 92, 92, 92, 92, 92, 92, 92, 92,
      92, 92, 92, 92, 92, 92, 92, 92, 92, 92, 92, 92, 92, 92, 92, 92, 92, 92, 92, 92,
      92, 92, 92, 92] =
     (2609520838, 694547676, 3704830781, 1919931674,
     2110238899, 3888694538, 1942873348, 1290368528)"
  by (simp add: init256_def sha_eval)

lemma hmac_someotherpass_outer_block1:
  "block256 
     (2609520838, 694547676, 3704830781, 1919931674,
     2110238899, 3888694538, 1942873348, 1290368528)
     [29, 183, 84, 99, 24, 195, 149, 182, 203, 8, 58, 165, 97, 37, 237, 117, 241, 103,
      171, 68, 117, 192, 239, 79, 80, 222, 207, 16, 213, 25, 125, 164, 128, 0, 0, 0, 0,
      0, 0, 0, 0, 0, 0, 0, 0, 0, 0, 0, 0, 0, 0, 0, 0, 0, 0, 0, 0, 0, 0, 0, 0, 0, 3, 0] =
     (3228688608, 2574013200, 4036627587, 3989768163,
     1413756782, 371540865, 2050624330, 1266636335)"
  by (simp add: init256_def sha_eval)

lemma hmac_someotherpass_outer_sum:
  "sha256
     [47, 51, 49, 57, 51, 40, 52, 57, 46, 44, 61, 47, 47, 92, 92, 92, 92, 92, 92, 92,
      92, 92, 92, 92, 92, 92, 92, 92, 92, 92, 92, 92, 92, 92, 92, 92, 92, 92, 92, 92,
      92, 92, 92, 92, 92, 92, 92, 92, 92, 92, 92, 92, 92, 92, 92, 92, 92, 92, 92, 92,
      92, 92, 92, 92, 29, 183, 84, 99, 24, 195, 149, 182, 203, 8, 58, 165, 97, 37, 237,
      117, 241, 103, 171, 68, 117, 192, 239, 79, 80, 222, 207, 16, 213, 25, 125, 164] =
     [192, 113, 224, 224, 153, 108, 83, 16, 240, 154, 12, 131, 237, 207, 7, 227, 84,
      68, 55, 110, 22, 37, 67, 129, 122, 58, 11, 74, 75, 127, 86, 47]"
  by (simp add: sha256_def hmac_someotherpass_outer_blocks hmac_someotherpass_outer_block0 hmac_someotherpass_outer_block1 put_be32_def)

lemma hmac_someotherpass:
  "hmac_sha256 (ascii ''someotherpass'') 
     [20, 21, 22, 23, 24, 25, 26, 27, 28, 29, 30, 31, 32, 33, 34, 35, 36, 37, 38, 39] =
     [192, 113, 224, 224, 153, 108, 83, 16, 240, 154, 12, 131, 237, 207, 7, 227, 84,
      68, 55, 110, 22, 37, 67, 129, 122, 58, 11, 74, 75, 127, 86, 47]"
  by (simp add: hmac_sha256_def hmac_someotherpass_key xor_byte_numeral hmac_someotherpass_inner_sum hmac_someotherpass_outer_sum)

lemma hmac_secrettwo_key:
  "hmac_key (ascii ''secrettwo'') =
     [115, 101, 99, 114, 101, 116, 116, 119, 111, 0, 0, 0, 0, 0, 0, 0, 0, 0, 0, 0, 0,
      0, 0, 0, 0, 0, 0, 0, 0, 0, 0, 0, 0, 0, 0, 0, 0, 0, 0, 0, 0, 0, 0, 0, 0, 0, 0, 0,
      0, 0, 0, 0, 0, 0, 0, 0, 0, 0, 0, 0, 0, 0, 0, 0]"
  by (simp add: hmac_key_def copy_into_def ascii_def replicate_numeral)

lemma hmac_secrettwo_inner_blocks:
  "chunks 64 (md_pad
     [69, 83, 85, 68, 83, 66, 66, 65, 89, 54, 54, 54, 54, 54, 54, 54, 54, 54, 54, 54,
      54, 54, 54, 54, 54, 54, 54, 54, 54, 54, 54, 54, 54, 54, 54, 54, 54, 54, 54, 54,
      54, 54, 54, 54, 54, 54, 54, 54, 54, 54, 54, 54, 54, 54, 54, 54, 54, 54, 54, 54,
      54, 54, 54, 54, 20, 21, 22, 23, 24, 25, 26, 27, 28, 29, 30, 31, 32, 33, 34, 35,
      36, 37, 38, 39]) =
     [[69, 83, 85, 68, 83, 66, 66, 65, 89, 54, 54, 54, 54, 54, 54, 54, 54, 54, 54, 54,
       54, 54, 54, 54, 54, 54, 54, 54, 54, 54, 54, 54, 54, 54, 54, 54, 54, 54, 54, 54,
       54, 54, 54, 54, 54, 54, 54, 54, 54, 54, 54, 54, 54, 54, 54, 54, 54, 54, 54, 54,
       54, 54, 54, 54],
      [20, 21, 22, 23, 24, 25, 26, 27, 28, 29, 30, 31, 32, 33, 34, 35, 36, 37, 38, 39,
       128, 0, 0, 0, 0, 0, 0, 0, 0, 0, 0, 0, 0, 0, 0, 0, 0, 0, 0, 0, 0, 0, 0, 0, 0, 0,
       0, 0, 0, 0, 0, 0, 0, 0, 0, 0, 0, 0, 0, 0, 0, 0, 2, 160]]"
  by (simp add: pad_eval)

lemma hmac_secrettwo_inner_block0:
  "block256 init256
     [69, 83, 85, 68, 83, 66, 66, 65, 89, 54, 54, 54, 54, 54, 54, 54, 54, 54, 54, 54,
      54, 54, 54, 54, 54, 54, 54, 54, 54, 54, 54, 54, 54, 54, 54, 54, 54, 54, 54, 54,
      54, 54, 54, 54, 54, 54, 54, 54, 54, 54, 54, 54, 54, 54, 54, 54, 54, 54, 54, 54,
      54, 54, 54, 54] =
     (4223929478, 446122412, 1417028887, 139327226,
     1244950182, 3311482309, 3109389843, 750735944)"
  by (simp add: init256_def sha_eval)

lemma hmac_secrettwo_inner_block1:
  "block256 
     (4223929478, 446122412, 1417028887, 139327226,
     1244950182, 3311482309, 3109389843, 750735944)
     [20, 21, 22, 23, 24, 25, 26, 27, 28, 29, 30, 31, 32, 33, 34, 35, 36, 37, 38, 39,
      128, 0, 0, 0, 0, 0, 0, 0, 0, 0, 0, 0, 0, 0, 0, 0, 0, 0, 0, 0, 0, 0, 0, 0, 0, 0,
      0, 0, 0, 0, 0, 0, 0, 0, 0, 0, 0, 0, 0, 0, 0, 0, 2, 160] =
     (3900855112, 1147699587, 48723126, 1726367723,
     179580942, 4269985592, 856694788, 2707598885)"
  by (simp add: init256_def sha_eval)

lemma hmac_secrettwo_inner_sum:
  "sha256
     [69, 83, 85, 68, 83, 66, 66, 65, 89, 54, 54, 54, 54, 54, 54, 54, 54, 54, 54, 54,
      54, 54, 54, 54, 54, 54, 54, 54, 54, 54, 54, 54, 54, 54, 54, 54, 54, 54, 54, 54,
      54, 54, 54, 54, 54, 54, 54, 54, 54, 54, 54, 54, 54, 54, 54, 54, 54, 54, 54, 54,
      54, 54, 54, 54, 20, 21, 22, 23, 24, 25, 26, 27, 28, 29, 30, 31, 32, 33, 34, 35,
      36, 37, 38, 39] =
     [232, 130, 83, 72, 68, 104, 129, 131, 2, 231, 116, 182, 102, 230, 71, 235, 10,
      180, 48, 14, 254, 130, 207, 56, 51, 16, 32, 4, 161, 98, 174, 37]"
  by (simp add: sha256_def hmac_secrettwo_inner_blocks hmac_secrettwo_inner_block0 hmac_secrettwo_inner_block1 put_be32_def)

lemma hmac_secrettwo_outer_blocks:
  "chunks 64 (md_pad
     [47, 57, 63, 46, 57, 40, 40, 43, 51, 92, 92, 92, 92, 92, 92, 92, 92, 92, 92, 92,
      92, 92, 92, 92, 92, 92, 92, 92, 92, 92, 92, 92, 92, 92, 92, 92, 92, 92, 92, 92,
      92, 92, 92, 92, 92, 92, 92, 92, 92, 92, 92, 92, 92, 92, 92, 92, 92, 92, 92, 92,
      92, 92, 92, 92, 232, 130, 83, 72, 68, 104, 129, 131, 2, 231, 116, 182, 102, 230,
      71, 235, 10, 180, 48, 14, 254, 130, 207, 56, 51, 16, 32, 4, 161, 98, 174, 37]) =
     [[47, 57, 63, 46, 57, 40, 40, 43, 51, 92, 92, 92, 92, 92, 92, 92, 92, 92, 92, 92,
       92, 92, 92, 92, 92, 92, 92, 92, 92, 92, 92, 92, 92, 92, 92, 92, 92, 92, 92, 92,
       92, 92, 92, 92, 92, 92, 92, 92, 92, 92, 92, 92, 92, 92, 92, 92, 92, 92, 92, 92,
       92, 92, 92, 92],
      [232, 130, 83, 72, 68, 104, 129, 131, 2, 231, 116, 182, 102, 230, 71, 235, 10,
       180, 48, 14, 254, 130, 207, 56, 51, 16, 32, 4, 161, 98, 174, 37, 128, 0, 0, 0,
       0, 0, 0, 0, 0, 0, 0, 0, 0, 0, 0, 0, 0, 0, 0, 0, 0, 0, 0, 0, 0, 0, 0, 0, 0, 0, 3,
       0]]"
  by (simp add: pad_eval)

lemma hmac_secrettwo_outer_block0:
  "block256 init256
     [47, 57, 63, 46, 57, 40, 40, 43, 51, 92, 92, 92, 92, 92, 92, 92, 92, 92, 92, 92,
      92, 92, 92, 92, 92, 92, 92, 92, 92, 92, 92, 92, 92, 92, 92, 92, 92, 92, 92, 92,
      92, 92, 92, 92, 92, 92, 92, 92, 92, 92, 92, 92, 92, 92, 92, 92, 92, 92, 92, 92,
      92, 92, 92, 92] =
     (872262250, 4023792844, 1920891480, 319876492,
     1316265559, 1921860182, 1793695313, 2009177651)"
  by (simp add: init256_def sha_eval)

lemma hmac_secrettwo_outer_block1:
  "block256 
     (872262250, 4023792844, 1920891480, 319876492,
     1316265559, 1921860182, 1793695313, 2009177651)
     [232, 130, 83, 72, 68, 104, 129, 131, 2, 231, 116, 182, 102, 230, 71, 235, 10,
      180, 48, 14, 254, 130, 207, 56, 51, 16, 32, 4, 161, 98, 174, 37, 128, 0, 0, 0, 0,
      0, 0, 0, 0, 0, 0, 0, 0, 0, 0, 0, 0, 0, 0, 0, 0, 0, 0, 0, 0, 0, 0, 0, 0, 0, 3, 0] =
     (1713212631, 3830441366, 81596152, 2432417106,
     4089884753, 3099627647, 550485617, 2972395195)"
  by (simp add: init256_def sha_eval)

lemma hmac_secrettwo_outer_sum:
  "sha256
     [47, 57, 63, 46, 57, 40, 40, 43, 51, 92, 92, 92, 92, 92, 92, 92, 92, 92, 92, 92,
      92, 92, 92, 92, 92, 92, 92, 92, 92, 92, 92, 92, 92, 92, 92, 92, 92, 92, 92, 92,
      92, 92, 92, 92, 92, 92, 92, 92, 92, 92, 92, 92, 92, 92, 92, 92, 92, 92, 92, 92,
      92, 92, 92, 92, 232, 130, 83, 72, 68, 104, 129, 131, 2, 231, 116, 182, 102, 230,
      71, 235, 10, 180, 48, 14, 254, 130, 207, 56, 51, 16, 32, 4, 161, 98, 174, 37] =
     [102, 29, 140, 215, 228, 79, 229, 150, 4, 221, 14, 248, 144, 251, 189, 82, 243,
      198, 176, 81, 184, 192, 144, 127, 32, 207, 190, 113, 177, 43, 38, 187]"
  by (simp add: sha256_def hmac_secrettwo_outer_blocks hmac_secrettwo_outer_block0 hmac_secrettwo_outer_block1 put_be32_def)

lemma hmac_secrettwo:
  "hmac_sha256 (ascii ''secrettwo'') 
     [20, 21, 22, 23, 24, 25, 26, 27, 28, 29, 30, 31, 32, 33, 34, 35, 36, 37, 38, 39] =
     [102, 29, 140, 215, 228, 79, 229, 150, 4, 221, 14, 248, 144, 251, 189, 82, 243,
      198, 176, 81, 184, 192, 144, 127, 32, 207, 190, 113, 177, 43, 38, 187]"
  by (simp add: hmac_sha256_def hmac_secrettwo_key xor_byte_numeral hmac_secrettwo_inner_sum hmac_secrettwo_outer_sum)


lemma test_hmacs_differ:
  "hmac_sha256 (ascii ''someotherpass'') (map of_nat [20..<40]) \<noteq>
   hmac_sha256 (ascii ''secrettwo'') (map of_nat [20..<40])"
  unfolding test_nonce hmac_someotherpass hmac_secrettwo by simp

theorem verifyPeer_wrong_passphrase_witness:
  "listenAuth test_env test_node_allow 40000 3000 (ascii ''secrettwo'') =
     Inr (test_listener test_node_allow (ascii ''secrettwo''))
   \<and> test_net (test_listener test_node_allow (ascii ''secrettwo'')) ''localhost:40000'' =
     Inr (accepted (test_listener test_node_allow (ascii ''secrettwo'')) ''127.0.0.1:40000'')
   \<and> randMsg test_node_allow = (Inr (map of_nat [20..<40]), test_node_allow\<lparr>entropy_pos := 40\<rparr>)
   \<and> hmac_sha256 (ascii ''someotherpass'') (map of_nat [20..<40]) \<noteq>
     hmac_sha256 (ascii ''secrettwo'') (map of_nat [20..<40])
   \<and> allowSelfConnection test_node_allow
   \<and> fst (verifyPeer (test_net (test_listener test_node_allow (ascii ''secrettwo''))) test_node_allow
        ''localhost:40000'' (ascii ''someotherpass'')) = Inl InvalidChallengeResponse"
proof -
  have a: "allowSelfConnection test_node_allow"
    by (simp add: test_node_allow_def)
  show ?thesis
    using verifyPeer_wrong_passphrase
      [where net = "test_net (test_listener test_node_allow (ascii ''secrettwo''))"
         and peer = "''localhost:40000''",
       OF test_listener_started test_net_dial test_node_randMsg(2) test_hmacs_differ]
      test_listener_started [of test_node_allow "ascii ''secrettwo''"]
      test_net_dial [of "test_listener test_node_allow (ascii ''secrettwo'')"]
      test_node_randMsg(2) test_hmacs_differ a
    by simp
qed

text \<open>
  The claim as stated, with the MAC mismatch as the error returned, fails when the client
  runs in the listener's own process with the self-connection check in force, as in
  \<^verbatim>\<open>TestBrokenAuth\<close> without its first line: the passphrases and the two MACs over the
  nonce differ, the listener closes without answering, and \<^verbatim>\<open>verifyPeer\<close> returns the read
  error, not the MAC mismatch.
\<close>

theorem verifyPeer_wrong_passphrase_counterexample:
  "listenAuth test_env test_node 40000 3000 (ascii ''secrettwo'') =
     Inr (test_listener test_node (ascii ''secrettwo''))
   \<and> test_net (test_listener test_node (ascii ''secrettwo'')) ''localhost:40000'' =
     Inr (accepted (test_listener test_node (ascii ''secrettwo'')) ''127.0.0.1:40000'')
   \<and> randMsg test_node = (Inr (map of_nat [20..<40]), test_node\<lparr>entropy_pos := 40\<rparr>)
   \<and> hmac_sha256 (ascii ''someotherpass'') (map of_nat [20..<40]) \<noteq>
     hmac_sha256 (ascii ''secrettwo'') (map of_nat [20..<40])
   \<and> fst (verifyPeer (test_net (test_listener test_node (ascii ''secrettwo''))) test_node
        ''localhost:40000'' (ascii ''someotherpass'')) = Inl EOF
   \<and> EOF \<noteq> InvalidChallengeResponse"
proof -
  have d: "\<not> allowSelfConnection test_node \<and> copy_into 10 (dedupe test_node) = dedupe test_node"
    by (simp add: test_node_def copy_into_def)
  show ?thesis
    using verifyPeer_listener
      [where net = "test_net (test_listener test_node (ascii ''secrettwo''))"
         and peer = "''localhost:40000''" and passphrase = "ascii ''someotherpass''",
       OF test_listener_started test_net_dial test_node_randMsg(1)] d
      test_listener_started [of test_node "ascii ''secrettwo''"]
      test_net_dial [of "test_listener test_node (ascii ''secrettwo'')"]
      test_node_randMsg(1) test_hmacs_differ
    by simp
qed
end
